theory Spec2Isabelle
  imports Main "HOL-Library.Sublist"
begin

section \<open>The resource aws_vpc_peering_connection\<close>

text \<open>
  A shallow embedding of \<^verbatim>\<open>internal/service/ec2/vpc_peering_connection.go\<close>.
  Go pointers are options (\<open>None\<close> is nil), a Go \<open>error\<close> result is an
  \<open>error option\<close> (\<open>None\<close> is the nil error), a nil-pointer dereference is the
  result \<open>Panics\<close>. The remote side (AWS) is a state of an arbitrary type \<open>'w\<close>
  that every API call may read and change.
\<close>

subsection \<open>Go error values\<close>

text \<open>
  The error values the file builds or inspects: an \<^verbatim>\<open>awserr.Error\<close> with its
  \<^verbatim>\<open>Code()\<close> and \<^verbatim>\<open>Message()\<close>, \<^verbatim>\<open>errors.New\<close>, and
  \<^verbatim>\<open>fmt.Errorf\<close> with its format string and its string operands, kept apart by
  what happens to an error operand: none, formatted with \<^verbatim>\<open>%s\<close> (the text only),
  or wrapped with \<^verbatim>\<open>%w\<close>. \<open>OtherError\<close> is any other error value.
\<close>

datatype error =
    AWSError string string
  | OtherError string
  | ErrorsNew string
  | Errorf string "string list"
  | Errorf_s string "string list" error
  | Errorf_w string "string list" error

text \<open>\<^verbatim>\<open>errors.As(err, &awsErr)\<close>: the first \<^verbatim>\<open>awserr.Error\<close> of the chain.\<close>

fun as_awserr :: "error \<Rightarrow> (string \<times> string) option" where
  "as_awserr (AWSError c m) = Some (c, m)"
| "as_awserr (Errorf_w f args e) = as_awserr e"
| "as_awserr (OtherError t) = None"
| "as_awserr (ErrorsNew t) = None"
| "as_awserr (Errorf f args) = None"
| "as_awserr (Errorf_s f args e) = None"

text \<open>\<^verbatim>\<open>strings.Contains(s, substr)\<close>.\<close>

primrec Contains :: "string \<Rightarrow> string \<Rightarrow> bool" where
  "Contains [] substr = (substr = [])"
| "Contains (c # s) substr = (prefix substr (c # s) \<or> Contains s substr)"

text \<open>
  \<^verbatim>\<open>tfawserr.ErrCodeEquals(err, code)\<close> and
  \<^verbatim>\<open>tfawserr.ErrMessageContains(err, code, message)\<close>; both are false on a nil error.
\<close>

definition ErrCodeEquals :: "error option \<Rightarrow> string \<Rightarrow> bool" where
  "ErrCodeEquals err c =
     (case err of
        None \<Rightarrow> False
      | Some e \<Rightarrow> (case as_awserr e of None \<Rightarrow> False | Some (c', m) \<Rightarrow> c' = c))"

definition ErrMessageContains :: "error option \<Rightarrow> string \<Rightarrow> string \<Rightarrow> bool" where
  "ErrMessageContains err c message =
     (case err of
        None \<Rightarrow> False
      | Some e \<Rightarrow>
          (case as_awserr e of
             None \<Rightarrow> False
           | Some (c', m) \<Rightarrow> c' = c \<and> Contains m message))"

subsection \<open>The EC2 API types\<close>

text \<open>\<^verbatim>\<open>aws.StringValue\<close> and \<^verbatim>\<open>aws.BoolValue\<close>: the zero value for nil.\<close>

definition StringValue :: "string option \<Rightarrow> string" where
  "StringValue p = (case p of None \<Rightarrow> [] | Some v \<Rightarrow> v)"

definition BoolValue :: "bool option \<Rightarrow> bool" where
  "BoolValue p = (case p of None \<Rightarrow> False | Some v \<Rightarrow> v)"

text \<open>The \<^verbatim>\<open>ec2.VpcPeeringConnectionStateReasonCode*\<close> constants the file names.\<close>

definition VpcPeeringConnectionStateReasonCodeInitiatingRequest :: string where
  "VpcPeeringConnectionStateReasonCodeInitiatingRequest = ''initiating-request''"

definition VpcPeeringConnectionStateReasonCodePendingAcceptance :: string where
  "VpcPeeringConnectionStateReasonCodePendingAcceptance = ''pending-acceptance''"

definition VpcPeeringConnectionStateReasonCodeFailed :: string where
  "VpcPeeringConnectionStateReasonCodeFailed = ''failed''"

definition VpcPeeringConnectionStateReasonCodeProvisioning :: string where
  "VpcPeeringConnectionStateReasonCodeProvisioning = ''provisioning''"

definition VpcPeeringConnectionStateReasonCodeActive :: string where
  "VpcPeeringConnectionStateReasonCodeActive = ''active''"

definition VpcPeeringConnectionStateReasonCodeDeleted :: string where
  "VpcPeeringConnectionStateReasonCodeDeleted = ''deleted''"

record VpcPeeringConnectionStateReason =
  Code :: "string option"
  Message :: "string option"

record VpcPeeringConnectionOptionsDescription =
  AllowDnsResolutionFromRemoteVpc :: "bool option"
  AllowEgressFromLocalClassicLinkToRemoteVpc :: "bool option"
  AllowEgressFromLocalVpcToRemoteClassicLink :: "bool option"

record VpcPeeringConnectionVpcInfo =
  OwnerId :: "string option"
  PeeringOptions :: "VpcPeeringConnectionOptionsDescription option"
  Region :: "string option"
  VpcId :: "string option"

record VpcPeeringConnection =
  AccepterVpcInfo :: "VpcPeeringConnectionVpcInfo option"
  RequesterVpcInfo :: "VpcPeeringConnectionVpcInfo option"
  Status :: "VpcPeeringConnectionStateReason option"
  Tags :: "(string option \<times> string option) list"
  VpcPeeringConnectionId :: "string option"

record PeeringConnectionOptionsRequest =
  req_AllowDnsResolutionFromRemoteVpc :: "bool option"
  req_AllowEgressFromLocalClassicLinkToRemoteVpc :: "bool option"
  req_AllowEgressFromLocalVpcToRemoteClassicLink :: "bool option"

type_synonym TagSpecification = "string \<times> (string \<times> string) list"

record CreateVpcPeeringConnectionInput =
  PeerOwnerId :: "string option"
  PeerRegion :: "string option"
  PeerVpcId :: "string option"
  TagSpecifications :: "TagSpecification list"
  create_VpcId :: "string option"

record CreateVpcPeeringConnectionOutput =
  created_VpcPeeringConnection :: "VpcPeeringConnection option"

record DescribeVpcPeeringConnectionsInput =
  VpcPeeringConnectionIds :: "string list"

text \<open>A nil slice and an empty slice are both the empty list: the file only takes \<^verbatim>\<open>len\<close>.\<close>

record DescribeVpcPeeringConnectionsOutput =
  VpcPeeringConnections :: "VpcPeeringConnection option list"

record AcceptVpcPeeringConnectionInput =
  accept_VpcPeeringConnectionId :: "string option"

record AcceptVpcPeeringConnectionOutput =
  accepted_VpcPeeringConnection :: "VpcPeeringConnection option"

record ModifyVpcPeeringConnectionOptionsInput =
  AccepterPeeringConnectionOptions :: "PeeringConnectionOptionsRequest option"
  RequesterPeeringConnectionOptions :: "PeeringConnectionOptionsRequest option"
  modify_VpcPeeringConnectionId :: "string option"

record DeleteVpcPeeringConnectionInput =
  delete_VpcPeeringConnectionId :: "string option"

text \<open>\<^verbatim>\<open>ec2.ResourceTypeVpcPeeringConnection\<close>.\<close>

definition ResourceTypeVpcPeeringConnection :: string where
  "ResourceTypeVpcPeeringConnection = ''vpc-peering-connection''"

text \<open>
  Modelled from the spec: the constant \<^verbatim>\<open>ErrCodeInvalidVpcPeeringConnectionIDNotFound\<close>
  is declared in another file of the package; it is the spec's "not found" error code, which
  the status poller of this file writes out as a literal.
\<close>

definition ErrCodeInvalidVpcPeeringConnectionIDNotFound :: string where
  "ErrCodeInvalidVpcPeeringConnectionIDNotFound = ''InvalidVpcPeeringConnectionID.NotFound''"

subsection \<open>Control flow\<close>

text \<open>
  A Go call either returns or panics (here: on a nil-pointer dereference). A step of a
  handler either goes on with a value or leaves the handler.
\<close>

datatype 'a go = Returns 'a | Panics

datatype 'a flow = Continue 'a | Exit "error option go"

subsection \<open>The plugin SDK: values, schema, ResourceData, StateChangeConf\<close>

datatype tfvalue =
    VNil
  | VString string
  | VBool bool
  | VList "tfvalue list"
  | VMap "(string \<times> tfvalue) list"

datatype ValueType = TypeBool | TypeString | TypeList | TypeMap

text \<open>The \<^verbatim>\<open>Schema\<close> of \<^verbatim>\<open>ResourceVPCPeeringConnection\<close>: the type of each key.\<close>

definition Schema :: "(string \<times> ValueType) list" where
  "Schema =
     [(''accept_status'', TypeString),
      (''accepter'', TypeList),
      (''auto_accept'', TypeBool),
      (''peer_owner_id'', TypeString),
      (''peer_region'', TypeString),
      (''peer_vpc_id'', TypeString),
      (''requester'', TypeList),
      (''tags'', TypeMap),
      (''tags_all'', TypeMap),
      (''vpc_id'', TypeString)]"

fun Zero :: "ValueType \<Rightarrow> tfvalue" where
  "Zero TypeBool = VBool False"
| "Zero TypeString = VString []"
| "Zero TypeList = VList []"
| "Zero TypeMap = VMap []"

fun fits :: "tfvalue \<Rightarrow> ValueType \<Rightarrow> bool" where
  "fits VNil t = True"
| "fits (VString v) t = (t = TypeString)"
| "fits (VBool v) t = (t = TypeBool)"
| "fits (VList v) t = (t = TypeList)"
| "fits (VMap v) t = (t = TypeMap)"

text \<open>
  \<^verbatim>\<open>schema.ResourceData\<close>: the resource ID, whether the resource is new, the
  attribute values that \<^verbatim>\<open>Get\<close> reads and \<^verbatim>\<open>Set\<close> writes, the planned changes
  (old and new value of each changed key) and the timeouts.
\<close>

record ResourceData =
  resource_id :: string
  is_new :: bool
  attrs :: "string \<rightharpoonup> tfvalue"
  changes :: "string \<rightharpoonup> tfvalue \<times> tfvalue"
  timeouts :: "string \<Rightarrow> nat"

definition d_Id :: "ResourceData \<Rightarrow> string" where
  "d_Id d = resource_id d"

definition d_SetId :: "ResourceData \<Rightarrow> string \<Rightarrow> ResourceData" where
  "d_SetId d v = d\<lparr>resource_id := v\<rparr>"

definition d_IsNewResource :: "ResourceData \<Rightarrow> bool" where
  "d_IsNewResource d = is_new d"

definition d_Timeout :: "ResourceData \<Rightarrow> string \<Rightarrow> nat" where
  "d_Timeout d k = timeouts d k"

text \<open>
  \<^verbatim>\<open>d.Get\<close>: the value, or the zero value of the key's type when the key is not set
  or was set to nil.
\<close>

definition d_Get :: "ResourceData \<Rightarrow> string \<Rightarrow> tfvalue" where
  "d_Get d k =
     (let zero = (case map_of Schema k of Some t \<Rightarrow> Zero t | None \<Rightarrow> VNil) in
      case attrs d k of
        Some v \<Rightarrow> if v = VNil then zero else v
      | None \<Rightarrow> zero)"

text \<open>\<^verbatim>\<open>d.GetOk\<close>: the value, and whether it is set to a non-zero value.\<close>

definition d_GetOk :: "ResourceData \<Rightarrow> string \<Rightarrow> tfvalue \<times> bool" where
  "d_GetOk d k =
     (case attrs d k of
        None \<Rightarrow> (d_Get d k, False)
      | Some v \<Rightarrow>
          (d_Get d k,
           v \<noteq> VNil \<and> (case map_of Schema k of Some t \<Rightarrow> v \<noteq> Zero t | None \<Rightarrow> True)))"

definition d_HasChange :: "ResourceData \<Rightarrow> string \<Rightarrow> bool" where
  "d_HasChange d k = (changes d k \<noteq> None)"

definition d_HasChanges :: "ResourceData \<Rightarrow> string list \<Rightarrow> bool" where
  "d_HasChanges d ks = list_ex (d_HasChange d) ks"

definition d_GetChange :: "ResourceData \<Rightarrow> string \<Rightarrow> tfvalue \<times> tfvalue" where
  "d_GetChange d k = (case changes d k of Some on \<Rightarrow> on | None \<Rightarrow> (d_Get d k, d_Get d k))"

text \<open>
  \<^verbatim>\<open>d.Set\<close>: an error, and nothing written, when the key is not in the schema or the
  value is not of the key's type.
\<close>

definition d_Set :: "ResourceData \<Rightarrow> string \<Rightarrow> tfvalue \<Rightarrow> ResourceData \<times> error option" where
  "d_Set d k v =
     (case map_of Schema k of
        None \<Rightarrow> (d, Some (OtherError k))
      | Some t \<Rightarrow>
          if fits v t then (d\<lparr>attrs := (attrs d)(k \<mapsto> v)\<rparr>, None)
          else (d, Some (OtherError k)))"

text \<open>A pointer handed to \<^verbatim>\<open>d.Set\<close>: nil is the nil value, otherwise the value pointed to.\<close>

definition ptr_String :: "string option \<Rightarrow> tfvalue" where
  "ptr_String p = (case p of None \<Rightarrow> VNil | Some v \<Rightarrow> VString v)"

text \<open>The type assertion \<^verbatim>\<open>.(string)\<close> on a value read from a string key.\<close>

fun as_string :: "tfvalue \<Rightarrow> string" where
  "as_string (VString v) = v"
| "as_string v = []"

definition TimeoutCreate :: string where
  "TimeoutCreate = ''create''"

definition TimeoutUpdate :: string where
  "TimeoutUpdate = ''update''"

definition TimeoutDelete :: string where
  "TimeoutDelete = ''delete''"

type_synonym refresh_result = "VpcPeeringConnection option \<times> string \<times> error option"

text \<open>
  \<^verbatim>\<open>resource.StateChangeConf\<close>, with the fields the file sets. \<open>Refresh\<close> is a
  \<^verbatim>\<open>resource.StateRefreshFunc\<close>: each call may read and change the remote state.
\<close>

record 'w StateChangeConf =
  Pending :: "string list"
  Target :: "string list"
  Refresh :: "'w \<Rightarrow> refresh_result \<times> 'w"
  Timeout :: nat

subsection \<open>The remote state and the record of calls\<close>

text \<open>
  What a run did to the outside is kept as a list of events, one for each call that
  leaves the file, with the call's operands and its results.
\<close>

type_synonym KeyValueTags = "(string \<times> string) list"

datatype 'w event =
    UpdateTags_ev string tfvalue tfvalue "error option"
  | DescribeVpcPeeringConnections_ev DescribeVpcPeeringConnectionsInput
      "DescribeVpcPeeringConnectionsOutput option \<times> error option"
  | AcceptVpcPeeringConnection_ev AcceptVpcPeeringConnectionInput
      "AcceptVpcPeeringConnectionOutput option \<times> error option"
  | WaitForState_ev "'w StateChangeConf" "VpcPeeringConnection option \<times> error option"
  | ModifyVpcPeeringConnectionOptions_ev ModifyVpcPeeringConnectionOptionsInput "error option"
  | FindVPCPeeringConnectionByID_ev string "VpcPeeringConnection option \<times> error option"
  | CreateVpcPeeringConnection_ev CreateVpcPeeringConnectionInput
      "CreateVpcPeeringConnectionOutput option \<times> error option"
  | WaitVPCPeeringConnectionActive_ev string nat "VpcPeeringConnection option \<times> error option"
  | DeleteVpcPeeringConnection_ev DeleteVpcPeeringConnectionInput "error option"
  | WaitVPCPeeringConnectionDeleted_ev string nat "VpcPeeringConnection option \<times> error option"

record 'w session =
  remote :: 'w
  trace :: "'w event list"

text \<open>A call that leaves the file: it runs on the remote state and is recorded.\<close>

definition invoke :: "('a \<Rightarrow> 'w event) \<Rightarrow> ('w \<Rightarrow> 'a \<times> 'w) \<Rightarrow> 'w session \<Rightarrow> 'a \<times> 'w session" where
  "invoke ev f s =
     (case f (remote s) of (a, w') \<Rightarrow> (a, \<lparr>remote = w', trace = trace s @ [ev a]\<rparr>))"

text \<open>The calls a run made between two sessions, by the name of what was called.\<close>

datatype api =
    ApiUpdateTags
  | ApiDescribeVpcPeeringConnections
  | ApiAcceptVpcPeeringConnection
  | ApiWaitForState
  | ApiModifyVpcPeeringConnectionOptions
  | ApiFindVPCPeeringConnectionByID
  | ApiCreateVpcPeeringConnection
  | ApiWaitVPCPeeringConnectionActive
  | ApiDeleteVpcPeeringConnection
  | ApiWaitVPCPeeringConnectionDeleted

fun api_of :: "'w event \<Rightarrow> api" where
  "api_of (UpdateTags_ev i ov nv r) = ApiUpdateTags"
| "api_of (DescribeVpcPeeringConnections_ev i r) = ApiDescribeVpcPeeringConnections"
| "api_of (AcceptVpcPeeringConnection_ev i r) = ApiAcceptVpcPeeringConnection"
| "api_of (WaitForState_ev c r) = ApiWaitForState"
| "api_of (ModifyVpcPeeringConnectionOptions_ev i r) = ApiModifyVpcPeeringConnectionOptions"
| "api_of (FindVPCPeeringConnectionByID_ev i r) = ApiFindVPCPeeringConnectionByID"
| "api_of (CreateVpcPeeringConnection_ev i r) = ApiCreateVpcPeeringConnection"
| "api_of (WaitVPCPeeringConnectionActive_ev i t r) = ApiWaitVPCPeeringConnectionActive"
| "api_of (DeleteVpcPeeringConnection_ev i r) = ApiDeleteVpcPeeringConnection"
| "api_of (WaitVPCPeeringConnectionDeleted_ev i t r) = ApiWaitVPCPeeringConnectionDeleted"

definition new_events :: "'w session \<Rightarrow> 'w session \<Rightarrow> 'w event list" where
  "new_events s s' = drop (length (trace s)) (trace s')"

definition calls :: "'w session \<Rightarrow> 'w session \<Rightarrow> api list" where
  "calls s s' = map api_of (new_events s s')"

text \<open>
  A function of this file handed to the SDK as a closure: the SDK runs it on the remote
  state; the calls it makes there are not the handler's own and are not recorded.
\<close>

definition quiet :: "('w session \<Rightarrow> 'a \<times> 'w session) \<Rightarrow> 'w \<Rightarrow> 'a \<times> 'w" where
  "quiet f w = (case f \<lparr>remote = w, trace = []\<rparr> of (a, s') \<Rightarrow> (a, remote s'))"

text \<open>The \<^verbatim>\<open>*ec2.EC2\<close> client: the API operations the file calls.\<close>

record 'w EC2 =
  CreateVpcPeeringConnection ::
    "CreateVpcPeeringConnectionInput \<Rightarrow> 'w \<Rightarrow>
       (CreateVpcPeeringConnectionOutput option \<times> error option) \<times> 'w"
  DescribeVpcPeeringConnections ::
    "DescribeVpcPeeringConnectionsInput \<Rightarrow> 'w \<Rightarrow>
       (DescribeVpcPeeringConnectionsOutput option \<times> error option) \<times> 'w"
  AcceptVpcPeeringConnection ::
    "AcceptVpcPeeringConnectionInput \<Rightarrow> 'w \<Rightarrow>
       (AcceptVpcPeeringConnectionOutput option \<times> error option) \<times> 'w"
  ModifyVpcPeeringConnectionOptions ::
    "ModifyVpcPeeringConnectionOptionsInput \<Rightarrow> 'w \<Rightarrow> error option \<times> 'w"
  DeleteVpcPeeringConnection ::
    "DeleteVpcPeeringConnectionInput \<Rightarrow> 'w \<Rightarrow> error option \<times> 'w"

text \<open>\<^verbatim>\<open>conns.AWSClient\<close>, the \<^verbatim>\<open>meta\<close> of every handler.\<close>

record 'w AWSClient =
  EC2Conn :: "'w EC2"
  DefaultTagsConfig :: KeyValueTags
  IgnoreTagsConfig :: KeyValueTags
  AccountID :: string

text \<open>
  What the file calls and does not define: \<^verbatim>\<open>WaitForState\<close> of the plugin SDK, and
  the helpers of the provider's other files (waiters, finder, tag functions,
  \<^verbatim>\<open>tfresource.NotFound\<close>, the expander of peering options). They are parameters: a
  theorem that quantifies over \<open>x\<close> holds for whatever they do.
\<close>

record 'w externals =
  WaitForState ::
    "'w StateChangeConf \<Rightarrow> 'w \<Rightarrow> (VpcPeeringConnection option \<times> error option) \<times> 'w"
  WaitVPCPeeringConnectionActive ::
    "'w EC2 \<Rightarrow> string \<Rightarrow> nat \<Rightarrow> 'w \<Rightarrow> (VpcPeeringConnection option \<times> error option) \<times> 'w"
  WaitVPCPeeringConnectionDeleted ::
    "'w EC2 \<Rightarrow> string \<Rightarrow> nat \<Rightarrow> 'w \<Rightarrow> (VpcPeeringConnection option \<times> error option) \<times> 'w"
  FindVPCPeeringConnectionByID ::
    "'w EC2 \<Rightarrow> string \<Rightarrow> 'w \<Rightarrow> (VpcPeeringConnection option \<times> error option) \<times> 'w"
  UpdateTags :: "'w EC2 \<Rightarrow> string \<Rightarrow> tfvalue \<Rightarrow> tfvalue \<Rightarrow> 'w \<Rightarrow> error option \<times> 'w"
  NotFound :: "error option \<Rightarrow> bool"
  expandVPCPeeringConnectionOptions ::
    "tfvalue \<Rightarrow> bool \<Rightarrow> PeeringConnectionOptionsRequest option"
  tftags_New :: "tfvalue \<Rightarrow> KeyValueTags"
  MergeTags :: "KeyValueTags \<Rightarrow> KeyValueTags \<Rightarrow> KeyValueTags"
  ec2TagSpecificationsFromKeyValueTags :: "KeyValueTags \<Rightarrow> string \<Rightarrow> TagSpecification list"
  KeyValueTags_of :: "(string option \<times> string option) list \<Rightarrow> KeyValueTags"
  IgnoreAWS :: "KeyValueTags \<Rightarrow> KeyValueTags"
  IgnoreConfig :: "KeyValueTags \<Rightarrow> KeyValueTags \<Rightarrow> KeyValueTags"
  RemoveDefaultConfig :: "KeyValueTags \<Rightarrow> KeyValueTags \<Rightarrow> KeyValueTags"
  tags_Map :: "KeyValueTags \<Rightarrow> tfvalue"

subsection \<open>The status poller\<close>

definition vpcPeeringConnectionRefreshState ::
  "'w EC2 \<Rightarrow> string \<Rightarrow> 'w session \<Rightarrow> refresh_result \<times> 'w session" where
  "vpcPeeringConnectionRefreshState conn ident s =
     (let input = \<lparr>VpcPeeringConnectionIds = [ident]\<rparr> in
      case invoke (DescribeVpcPeeringConnections_ev input)
             (DescribeVpcPeeringConnections conn input) s of
        ((resp, Some err), s') \<Rightarrow>
          if ErrMessageContains (Some err) ''InvalidVpcPeeringConnectionID.NotFound'' ''''
          then ((None, VpcPeeringConnectionStateReasonCodeDeleted, None), s')
          else ((None, '''', Some err), s')
      | ((resp, None), s') \<Rightarrow>
          (case resp of
             None \<Rightarrow> ((None, '''', None), s')
           | Some out \<Rightarrow>
               (case VpcPeeringConnections out of
                  [] \<Rightarrow> ((None, '''', None), s')
                | None # rest \<Rightarrow> ((None, '''', None), s')
                | Some pc # rest \<Rightarrow>
                    (case Status pc of
                       None \<Rightarrow> ((None, '''', None), s')
                     | Some st \<Rightarrow>
                         (let statusCode = StringValue (Code st) in
                          if statusCode = VpcPeeringConnectionStateReasonCodeFailed
                          then ((None, statusCode, Some (ErrorsNew (StringValue (Message st)))), s')
                          else ((Some pc, statusCode, None), s'))))))"

subsection \<open>Waiting until the connection is available\<close>

text \<open>The \<^verbatim>\<open>stateConf\<close> that \<^verbatim>\<open>vpcPeeringConnectionWaitUntilAvailable\<close> builds.\<close>

definition availableStateConf :: "'w EC2 \<Rightarrow> string \<Rightarrow> nat \<Rightarrow> 'w StateChangeConf" where
  "availableStateConf conn ident timeout =
     \<lparr>Pending =
        [VpcPeeringConnectionStateReasonCodeInitiatingRequest,
         VpcPeeringConnectionStateReasonCodeProvisioning],
      Target =
        [VpcPeeringConnectionStateReasonCodePendingAcceptance,
         VpcPeeringConnectionStateReasonCodeActive],
      Refresh = quiet (vpcPeeringConnectionRefreshState conn ident),
      Timeout = timeout\<rparr>"

definition vpcPeeringConnectionWaitUntilAvailable ::
  "'w externals \<Rightarrow> 'w EC2 \<Rightarrow> string \<Rightarrow> nat \<Rightarrow> 'w session \<Rightarrow> error option \<times> 'w session" where
  "vpcPeeringConnectionWaitUntilAvailable x conn ident timeout s =
     (let stateConf = availableStateConf conn ident timeout in
      case invoke (WaitForState_ev stateConf) (WaitForState x stateConf) s of
        ((res, Some err), s') \<Rightarrow>
          (Some (Errorf_s
             ''Error waiting for VPC Peering Connection (%s) to become available: %s''
             [ident] err), s')
      | ((res, None), s') \<Rightarrow> (None, s'))"

subsection \<open>Accepting\<close>

definition resourceVPCPeeringConnectionAccept ::
  "'w EC2 \<Rightarrow> string \<Rightarrow> 'w session \<Rightarrow> (string \<times> error option) go \<times> 'w session" where
  "resourceVPCPeeringConnectionAccept conn ident s =
     (let req = \<lparr>accept_VpcPeeringConnectionId = Some ident\<rparr> in
      case invoke (AcceptVpcPeeringConnection_ev req) (AcceptVpcPeeringConnection conn req) s of
        ((resp, Some err), s') \<Rightarrow> (Returns ('''', Some err), s')
      | ((resp, None), s') \<Rightarrow>
          (case resp of
             None \<Rightarrow> (Panics, s')
           | Some out \<Rightarrow>
               (case accepted_VpcPeeringConnection out of
                  None \<Rightarrow> (Panics, s')
                | Some pc \<Rightarrow>
                    (case Status pc of
                       None \<Rightarrow> (Panics, s')
                     | Some st \<Rightarrow> (Returns (StringValue (Code st), None), s')))))"

subsection \<open>The read handler\<close>

definition flattenVpcPeeringConnectionOptionsDescription ::
  "VpcPeeringConnectionOptionsDescription option \<Rightarrow> tfvalue" where
  "flattenVpcPeeringConnectionOptionsDescription apiObject =
     (case apiObject of
        None \<Rightarrow> VNil
      | Some ob \<Rightarrow>
          (let tfMap = [];
               tfMap =
                 (case AllowDnsResolutionFromRemoteVpc ob of
                    None \<Rightarrow> tfMap
                  | Some v \<Rightarrow>
                      tfMap @ [(''allow_remote_vpc_dns_resolution'', VBool (BoolValue (Some v)))]);
               tfMap =
                 (case AllowEgressFromLocalClassicLinkToRemoteVpc ob of
                    None \<Rightarrow> tfMap
                  | Some v \<Rightarrow>
                      tfMap @ [(''allow_classic_link_to_remote_vpc'', VBool (BoolValue (Some v)))]);
               tfMap =
                 (case AllowEgressFromLocalVpcToRemoteClassicLink ob of
                    None \<Rightarrow> tfMap
                  | Some v \<Rightarrow>
                      tfMap @ [(''allow_vpc_to_remote_classic_link'', VBool (BoolValue (Some v)))])
           in VMap tfMap))"

text \<open>
  Lines 159 to 172 of the read handler: the status, the peer region and the role fields.
  The results of these \<^verbatim>\<open>d.Set\<close> calls are dropped, as in the source. A nil
  \<^verbatim>\<open>Status\<close>, \<^verbatim>\<open>AccepterVpcInfo\<close> or \<^verbatim>\<open>RequesterVpcInfo\<close> is dereferenced.
\<close>

definition read_role ::
  "'w AWSClient \<Rightarrow> ResourceData \<Rightarrow> VpcPeeringConnection \<Rightarrow> ResourceData go" where
  "read_role meta d pc =
     (case Status pc of
        None \<Rightarrow> Panics
      | Some st \<Rightarrow>
          (let d = fst (d_Set d ''accept_status'' (ptr_String (Code st))) in
           case AccepterVpcInfo pc of
             None \<Rightarrow> Panics
           | Some accepter \<Rightarrow>
               (let d = fst (d_Set d ''peer_region'' (ptr_String (Region accepter)));
                    accountID = AccountID meta in
                case RequesterVpcInfo pc of
                  None \<Rightarrow> Panics
                | Some requester \<Rightarrow>
                    if accountID = StringValue (OwnerId accepter)
                       \<and> accountID \<noteq> StringValue (OwnerId requester)
                    then
                      (let d = fst (d_Set d ''peer_owner_id'' (ptr_String (OwnerId requester)));
                           d = fst (d_Set d ''peer_vpc_id'' (ptr_String (VpcId requester)));
                           d = fst (d_Set d ''vpc_id'' (ptr_String (VpcId accepter)))
                       in Returns d)
                    else
                      (let d = fst (d_Set d ''peer_owner_id'' (ptr_String (OwnerId accepter)));
                           d = fst (d_Set d ''peer_vpc_id'' (ptr_String (VpcId accepter)));
                           d = fst (d_Set d ''vpc_id'' (ptr_String (VpcId requester)))
                       in Returns d))))"

text \<open>
  Lines 174 to 201: the peering options of both sides and the tags. Here the result of
  \<^verbatim>\<open>d.Set\<close> is checked, but for the two calls that set nil.
\<close>

definition read_options_tags ::
  "'w externals \<Rightarrow> 'w AWSClient \<Rightarrow> ResourceData \<Rightarrow> VpcPeeringConnectionVpcInfo \<Rightarrow>
     VpcPeeringConnectionVpcInfo \<Rightarrow> VpcPeeringConnection \<Rightarrow> error option \<times> ResourceData" where
  "read_options_tags x meta d accepter requester pc =
     (let defaultTagsConfig = DefaultTagsConfig meta;
          ignoreTagsConfig = IgnoreTagsConfig meta in
      case (if PeeringOptions accepter \<noteq> None
            then d_Set d ''accepter''
                   (VList [flattenVpcPeeringConnectionOptionsDescription (PeeringOptions accepter)])
            else (fst (d_Set d ''accepter'' VNil), None)) of
        (d, Some err) \<Rightarrow> (Some (Errorf_w ''error setting accepter: %w'' [] err), d)
      | (d, None) \<Rightarrow>
          (case (if PeeringOptions requester \<noteq> None
                 then d_Set d ''requester''
                        (VList [flattenVpcPeeringConnectionOptionsDescription
                                  (PeeringOptions requester)])
                 else (fst (d_Set d ''requester'' VNil), None)) of
             (d, Some err) \<Rightarrow> (Some (Errorf_w ''error setting requester: %w'' [] err), d)
           | (d, None) \<Rightarrow>
               (let tags = IgnoreConfig x (IgnoreAWS x (KeyValueTags_of x (Tags pc)))
                             ignoreTagsConfig in
                case d_Set d ''tags'' (tags_Map x (RemoveDefaultConfig x tags defaultTagsConfig)) of
                  (d, Some err) \<Rightarrow> (Some (Errorf_w ''error setting tags: %w'' [] err), d)
                | (d, None) \<Rightarrow>
                    (case d_Set d ''tags_all'' (tags_Map x tags) of
                       (d, Some err) \<Rightarrow> (Some (Errorf_w ''error setting tags_all: %w'' [] err), d)
                     | (d, None) \<Rightarrow> (None, d)))))"

definition resourceVPCPeeringConnectionRead ::
  "'w externals \<Rightarrow> 'w AWSClient \<Rightarrow> ResourceData \<Rightarrow> 'w session \<Rightarrow>
     error option go \<times> ResourceData \<times> 'w session" where
  "resourceVPCPeeringConnectionRead x meta d s =
     (let conn = EC2Conn meta in
      case invoke (FindVPCPeeringConnectionByID_ev (d_Id d))
             (FindVPCPeeringConnectionByID x conn (d_Id d)) s of
        ((pc, err), s') \<Rightarrow>
          if \<not> d_IsNewResource d \<and> NotFound x err then (Returns None, d_SetId d '''', s')
          else
            (case err of
               Some e \<Rightarrow>
                 (Returns (Some (Errorf_w ''error reading EC2 VPC Peering Connection (%s): %w''
                                   [d_Id d] e)), d, s')
             | None \<Rightarrow>
                 (case pc of
                    None \<Rightarrow> (Panics, d, s')
                  | Some pc \<Rightarrow>
                      (case read_role meta d pc of
                         Panics \<Rightarrow> (Panics, d, s')
                       | Returns d \<Rightarrow>
                           (case (AccepterVpcInfo pc, RequesterVpcInfo pc) of
                              (Some accepter, Some requester) \<Rightarrow>
                                (case read_options_tags x meta d accepter requester pc of
                                   (err, d) \<Rightarrow> (Returns err, d, s'))
                            | other \<Rightarrow> (Panics, d, s'))))))"

subsection \<open>The update handler\<close>

text \<open>Lines 207 to 213: the tags.\<close>

definition update_tags ::
  "'w externals \<Rightarrow> 'w EC2 \<Rightarrow> ResourceData \<Rightarrow> 'w session \<Rightarrow> error option \<times> 'w session" where
  "update_tags x conn d s =
     (if d_HasChange d ''tags_all'' \<and> \<not> d_IsNewResource d
      then
        (case d_GetChange d ''tags_all'' of
           (ov, nv) \<Rightarrow>
             (case invoke (UpdateTags_ev (d_Id d) ov nv) (UpdateTags x conn (d_Id d) ov nv) s of
                (Some err, s') \<Rightarrow>
                  (Some (Errorf_s ''error updating EC2 VPC Peering Connection (%s) tags: %s''
                           [d_Id d] err), s')
              | (None, s') \<Rightarrow> (None, s')))
      else (None, s))"

text \<open>Lines 226 to 237: the auto-accept; it goes on with the status code in force.\<close>

definition update_accept ::
  "'w externals \<Rightarrow> 'w EC2 \<Rightarrow> ResourceData \<Rightarrow> string \<Rightarrow> 'w session \<Rightarrow>
     string flow \<times> 'w session" where
  "update_accept x conn d statusCode s =
     (if snd (d_GetOk d ''auto_accept'')
         \<and> statusCode = VpcPeeringConnectionStateReasonCodePendingAcceptance
      then
        (case resourceVPCPeeringConnectionAccept conn (d_Id d) s of
           (Panics, s') \<Rightarrow> (Exit Panics, s')
         | (Returns (statusCode, Some err), s') \<Rightarrow>
             (Exit (Returns (Some (Errorf_s ''Unable to accept VPC Peering Connection: %s''
                                     [] err))), s')
         | (Returns (statusCode, None), s') \<Rightarrow>
             (case vpcPeeringConnectionWaitUntilAvailable x conn (d_Id d)
                     (d_Timeout d TimeoutUpdate) s' of
                (Some err, s'') \<Rightarrow>
                  (Exit (Returns (Some (Errorf_s
                     ''Error waiting for VPC Peering Connection to become available: %s''
                     [] err))), s'')
              | (None, s'') \<Rightarrow> (Continue statusCode, s'')))
      else (Continue statusCode, s))"

text \<open>Lines 239 to 263: the peering options.\<close>

definition update_options ::
  "'w externals \<Rightarrow> 'w EC2 \<Rightarrow> ResourceData \<Rightarrow> VpcPeeringConnection \<Rightarrow> string \<Rightarrow> 'w session \<Rightarrow>
     unit flow \<times> 'w session" where
  "update_options x conn d pc statusCode s =
     (if d_HasChanges d [''accepter'', ''requester'']
      then
        if statusCode = VpcPeeringConnectionStateReasonCodeActive
           \<or> statusCode = VpcPeeringConnectionStateReasonCodeProvisioning
        then
          (case (RequesterVpcInfo pc, AccepterVpcInfo pc) of
             (Some requester, Some accepter) \<Rightarrow>
               (let crossRegionPeering =
                      (StringValue (Region requester) \<noteq> StringValue (Region accepter));
                    req = \<lparr>AccepterPeeringConnectionOptions = None,
                           RequesterPeeringConnectionOptions = None,
                           modify_VpcPeeringConnectionId = Some (d_Id d)\<rparr>;
                    req =
                      (if d_HasChange d ''accepter''
                       then req\<lparr>AccepterPeeringConnectionOptions :=
                                  expandVPCPeeringConnectionOptions x (d_Get d ''accepter'')
                                    crossRegionPeering\<rparr>
                       else req);
                    req =
                      (if d_HasChange d ''requester''
                       then req\<lparr>RequesterPeeringConnectionOptions :=
                                  expandVPCPeeringConnectionOptions x (d_Get d ''requester'')
                                    crossRegionPeering\<rparr>
                       else req)
                in case invoke (ModifyVpcPeeringConnectionOptions_ev req)
                          (ModifyVpcPeeringConnectionOptions conn req) s of
                     (Some err, s') \<Rightarrow>
                       (Exit (Returns (Some (Errorf_s
                          ''error modifying VPC Peering Connection (%s) Options: %s''
                          [d_Id d] err))), s')
                   | (None, s') \<Rightarrow> (Continue (), s'))
           | other \<Rightarrow> (Exit Panics, s))
        else
          (Exit (Returns (Some (Errorf
             (''Unable to modify peering options. The VPC Peering Connection '' @
              ''%q is not active. Please set `auto_accept` attribute to `true`, '' @
              ''or activate VPC Peering Connection manually.'')
             [d_Id d]))), s)
      else (Continue (), s))"

definition resourceVPCPeeringConnectionUpdate ::
  "'w externals \<Rightarrow> 'w AWSClient \<Rightarrow> ResourceData \<Rightarrow> 'w session \<Rightarrow>
     error option go \<times> ResourceData \<times> 'w session" where
  "resourceVPCPeeringConnectionUpdate x meta d s =
     (let conn = EC2Conn meta in
      case update_tags x conn d s of
        (Some err, s1) \<Rightarrow> (Returns (Some err), d, s1)
      | (None, s1) \<Rightarrow>
          (case vpcPeeringConnectionRefreshState conn (d_Id d) s1 of
             ((pcRaw, statusCode, Some err), s2) \<Rightarrow>
               (Returns (Some (Errorf_s ''Error reading VPC Peering Connection: %s'' [] err)),
                d, s2)
           | ((None, statusCode, None), s2) \<Rightarrow> (Returns None, d_SetId d '''', s2)
           | ((Some pc, statusCode, None), s2) \<Rightarrow>
               (case update_accept x conn d statusCode s2 of
                  (Exit r, s3) \<Rightarrow> (r, d, s3)
                | (Continue statusCode, s3) \<Rightarrow>
                    (case update_options x conn d pc statusCode s3 of
                       (Exit r, s4) \<Rightarrow> (r, d, s4)
                     | (Continue u, s4) \<Rightarrow> resourceVPCPeeringConnectionRead x meta d s4))))"

subsection \<open>The create handler\<close>

definition resourceVPCPeeringConnectionCreate ::
  "'w externals \<Rightarrow> 'w AWSClient \<Rightarrow> ResourceData \<Rightarrow> 'w session \<Rightarrow>
     error option go \<times> ResourceData \<times> 'w session" where
  "resourceVPCPeeringConnectionCreate x meta d s =
     (let conn = EC2Conn meta;
          defaultTagsConfig = DefaultTagsConfig meta;
          tags = MergeTags x defaultTagsConfig (tftags_New x (d_Get d ''tags''));
          input =
            \<lparr>PeerOwnerId = None,
             PeerRegion = None,
             PeerVpcId = Some (as_string (d_Get d ''peer_vpc_id'')),
             TagSpecifications =
               ec2TagSpecificationsFromKeyValueTags x tags ResourceTypeVpcPeeringConnection,
             create_VpcId = Some (as_string (d_Get d ''vpc_id''))\<rparr>;
          input =
            (case d_GetOk d ''peer_owner_id'' of
               (v, ok) \<Rightarrow> if ok then input\<lparr>PeerOwnerId := Some (as_string v)\<rparr> else input)
      in case d_GetOk d ''peer_region'' of
           (v, ok) \<Rightarrow>
             if ok \<and> snd (d_GetOk d ''auto_accept'')
             then
               (Returns (Some (Errorf
                  (''`peer_region` cannot be set whilst `auto_accept` is `true` '' @
                   ''when creating an EC2 VPC Peering Connection'') [])), d, s)
             else
               (let input = (if ok then input\<lparr>PeerRegion := Some (as_string v)\<rparr> else input) in
                case invoke (CreateVpcPeeringConnection_ev input)
                       (CreateVpcPeeringConnection conn input) s of
                  ((output, Some err), s1) \<Rightarrow>
                    (Returns (Some (Errorf_w ''error creating EC2 VPC Peering Connection: %w''
                                      [] err)), d, s1)
                | ((output, None), s1) \<Rightarrow>
                    (case output of
                       None \<Rightarrow> (Panics, d, s1)
                     | Some out \<Rightarrow>
                         (case created_VpcPeeringConnection out of
                            None \<Rightarrow> (Panics, d, s1)
                          | Some pc \<Rightarrow>
                              (let d = d_SetId d (StringValue (VpcPeeringConnectionId pc)) in
                               case invoke
                                      (WaitVPCPeeringConnectionActive_ev (d_Id d)
                                         (d_Timeout d TimeoutCreate))
                                      (WaitVPCPeeringConnectionActive x conn (d_Id d)
                                         (d_Timeout d TimeoutCreate)) s1 of
                                 ((res, Some err), s2) \<Rightarrow>
                                   (Returns (Some (Errorf_w
                                      ''error waiting for EC2 VPC Peering Connection (%s) create: %w''
                                      [d_Id d] err)), d, s2)
                               | ((res, None), s2) \<Rightarrow>
                                   resourceVPCPeeringConnectionUpdate x meta d s2)))))"

subsection \<open>The delete handler\<close>

definition resourceVPCPeeringConnectionDelete ::
  "'w externals \<Rightarrow> 'w AWSClient \<Rightarrow> ResourceData \<Rightarrow> 'w session \<Rightarrow>
     error option go \<times> ResourceData \<times> 'w session" where
  "resourceVPCPeeringConnectionDelete x meta d s =
     (let conn = EC2Conn meta;
          input = \<lparr>delete_VpcPeeringConnectionId = Some (d_Id d)\<rparr> in
      case invoke (DeleteVpcPeeringConnection_ev input)
             (DeleteVpcPeeringConnection conn input) s of
        (err, s1) \<Rightarrow>
          if ErrCodeEquals err ErrCodeInvalidVpcPeeringConnectionIDNotFound
          then (Returns None, d, s1)
          else if ErrMessageContains err ''InvalidStateTransition'' ''to deleting''
          then (Returns None, d, s1)
          else
            (case err of
               Some e \<Rightarrow>
                 (Returns (Some (Errorf_w ''error deleting EC2 VPC Peering Connection (%s): %w''
                                   [d_Id d] e)), d, s1)
             | None \<Rightarrow>
                 (case invoke
                         (WaitVPCPeeringConnectionDeleted_ev (d_Id d) (d_Timeout d TimeoutDelete))
                         (WaitVPCPeeringConnectionDeleted x conn (d_Id d)
                            (d_Timeout d TimeoutDelete)) s1 of
                    ((res, Some e), s2) \<Rightarrow>
                      (Returns (Some (Errorf_s
                         ''error waiting for EC2 VPC Peering Connection (%s) delete: %s''
                         [d_Id d] e)), d, s2)
                  | ((res, None), s2) \<Rightarrow> (Returns None, d, s2))))"

subsection \<open>Example values\<close>

text \<open>
  Concrete inputs at which the theorems below are instantiated. The remote state is a
  counter of the calls made. In \<open>conn0\<close> and \<open>x0\<close> every call fails; an example
  overrides the operations it is about.
\<close>

definition conn0 :: "nat EC2" where
  "conn0 =
     \<lparr>CreateVpcPeeringConnection = (\<lambda>i w. ((None, Some (OtherError ''unavailable'')), Suc w)),
      DescribeVpcPeeringConnections = (\<lambda>i w. ((None, Some (OtherError ''unavailable'')), Suc w)),
      AcceptVpcPeeringConnection = (\<lambda>i w. ((None, Some (OtherError ''unavailable'')), Suc w)),
      ModifyVpcPeeringConnectionOptions = (\<lambda>i w. (Some (OtherError ''unavailable''), Suc w)),
      DeleteVpcPeeringConnection = (\<lambda>i w. (Some (OtherError ''unavailable''), Suc w))\<rparr>"

definition x0 :: "nat externals" where
  "x0 =
     \<lparr>WaitForState = (\<lambda>c w. ((None, Some (OtherError ''timeout'')), Suc w)),
      WaitVPCPeeringConnectionActive = (\<lambda>c i t w. ((None, Some (OtherError ''timeout'')), Suc w)),
      WaitVPCPeeringConnectionDeleted = (\<lambda>c i t w. ((None, Some (OtherError ''timeout'')), Suc w)),
      FindVPCPeeringConnectionByID = (\<lambda>c i w. ((None, Some (OtherError ''unavailable'')), Suc w)),
      UpdateTags = (\<lambda>c i ov nv w. (Some (OtherError ''unavailable''), Suc w)),
      NotFound = (\<lambda>e. False),
      expandVPCPeeringConnectionOptions = (\<lambda>v b. None),
      tftags_New = (\<lambda>v. []),
      MergeTags = (\<lambda>a b. a @ b),
      ec2TagSpecificationsFromKeyValueTags = (\<lambda>t r. [(r, t)]),
      KeyValueTags_of = (\<lambda>ts. []),
      IgnoreAWS = (\<lambda>t. t),
      IgnoreConfig = (\<lambda>t c. t),
      RemoveDefaultConfig = (\<lambda>t c. t),
      tags_Map = (\<lambda>t. VMap (map (\<lambda>(k, v). (k, VString v)) t))\<rparr>"

definition meta0 :: "nat AWSClient" where
  "meta0 =
     \<lparr>EC2Conn = conn0, DefaultTagsConfig = [], IgnoreTagsConfig = [],
      AccountID = ''111111111111''\<rparr>"

definition d0 :: ResourceData where
  "d0 =
     \<lparr>resource_id = ''pcx-1'', is_new = False, attrs = Map.empty, changes = Map.empty,
      timeouts = (\<lambda>k. 60)\<rparr>"

definition s0 :: "nat session" where
  "s0 = \<lparr>remote = 0, trace = []\<rparr>"

text \<open>A connection of account 111111111111 to account 222222222222 with the given status.\<close>

definition pc0 :: "string \<Rightarrow> string \<Rightarrow> VpcPeeringConnection" where
  "pc0 c m =
     \<lparr>AccepterVpcInfo =
        Some \<lparr>OwnerId = Some ''222222222222'', PeeringOptions = None,
              Region = Some ''eu-west-1'', VpcId = Some ''vpc-b''\<rparr>,
      RequesterVpcInfo =
        Some \<lparr>OwnerId = Some ''111111111111'', PeeringOptions = None,
              Region = Some ''eu-west-1'', VpcId = Some ''vpc-a''\<rparr>,
      Status = Some \<lparr>Code = Some c, Message = Some m\<rparr>,
      Tags = [],
      VpcPeeringConnectionId = Some ''pcx-1''\<rparr>"

text \<open>The describe call answers with the given connections, or fails with the given error.\<close>

definition describes :: "VpcPeeringConnection option list \<Rightarrow> nat EC2 \<Rightarrow> nat EC2" where
  "describes pcs conn =
     conn\<lparr>DescribeVpcPeeringConnections :=
            (\<lambda>i w. ((Some \<lparr>VpcPeeringConnections = pcs\<rparr>, None), Suc w))\<rparr>"

definition describe_fails :: "error \<Rightarrow> nat EC2 \<Rightarrow> nat EC2" where
  "describe_fails e conn =
     conn\<lparr>DescribeVpcPeeringConnections := (\<lambda>i w. ((None, Some e), Suc w))\<rparr>"

text \<open>A configuration with both \<^verbatim>\<open>peer_region\<close> and \<^verbatim>\<open>auto_accept\<close> set.\<close>

definition d_region_auto :: ResourceData where
  "d_region_auto =
     d0\<lparr>attrs := [''peer_region'' \<mapsto> VString ''us-west-2'', ''auto_accept'' \<mapsto> VBool True]\<rparr>"

text \<open>The delete call answers with the given error result; the finder finds the given connection.\<close>

definition delete_answers :: "error option \<Rightarrow> nat EC2 \<Rightarrow> nat EC2" where
  "delete_answers e conn = conn\<lparr>DeleteVpcPeeringConnection := (\<lambda>i w. (e, Suc w))\<rparr>"

definition finds :: "VpcPeeringConnection \<Rightarrow> nat externals \<Rightarrow> nat externals" where
  "finds pc x = x\<lparr>FindVPCPeeringConnectionByID := (\<lambda>c i w. ((Some pc, None), Suc w))\<rparr>"

definition deleted_in_time :: "nat externals \<Rightarrow> nat externals" where
  "deleted_in_time x = x\<lparr>WaitVPCPeeringConnectionDeleted := (\<lambda>c i t w. ((None, None), Suc w))\<rparr>"

text \<open>A plan that changes the accepter's peering options, with and without \<^verbatim>\<open>auto_accept\<close>.\<close>

definition d_opts :: ResourceData where
  "d_opts =
     d0\<lparr>attrs :=
          [''accepter'' \<mapsto> VList [VMap [(''allow_remote_vpc_dns_resolution'', VBool True)]]],
        changes :=
          [''accepter'' \<mapsto>
             (VList [], VList [VMap [(''allow_remote_vpc_dns_resolution'', VBool True)]])]\<rparr>"

definition d_auto :: ResourceData where
  "d_auto = d0\<lparr>attrs := [''auto_accept'' \<mapsto> VBool True]\<rparr>"

text \<open>The modify call succeeds; the accept call answers with the given connection.\<close>

definition modifies :: "nat EC2 \<Rightarrow> nat EC2" where
  "modifies conn = conn\<lparr>ModifyVpcPeeringConnectionOptions := (\<lambda>i w. (None, Suc w))\<rparr>"

definition accepts :: "VpcPeeringConnection \<Rightarrow> nat EC2 \<Rightarrow> nat EC2" where
  "accepts pc conn =
     conn\<lparr>AcceptVpcPeeringConnection :=
            (\<lambda>i w. ((Some \<lparr>accepted_VpcPeeringConnection = Some pc\<rparr>, None), Suc w))\<rparr>"

text \<open>The accept call fails with the given error.\<close>

definition accept_fails :: "error \<Rightarrow> nat EC2 \<Rightarrow> nat EC2" where
  "accept_fails e conn = conn\<lparr>AcceptVpcPeeringConnection := (\<lambda>i w. ((None, Some e), Suc w))\<rparr>"

section \<open>Properties\<close>

lemma Contains_empty: "Contains s []"
  by (induction s) simp_all

lemma Contains_sublist: "Contains s substr \<longleftrightarrow> sublist substr s"
  by (induction s) (auto simp: sublist_Cons_right)

subsection \<open>The status poller\<close>

text \<open>
  C4: for every connection ID, when \<^verbatim>\<open>DescribeVpcPeeringConnections\<close> fails with an
  \<^verbatim>\<open>InvalidVpcPeeringConnectionID.NotFound\<close> error (an AWS error of that code, whatever
  its message), the status poller returns a nil object, the status \<^verbatim>\<open>deleted\<close> and no
  error. The describe call is the only call it makes.
\<close>

theorem refresh_not_found_deleted:
  assumes "DescribeVpcPeeringConnections conn \<lparr>VpcPeeringConnectionIds = [ident]\<rparr> (remote s)
             = ((resp, Some err), w')"
    and "as_awserr err = Some (''InvalidVpcPeeringConnectionID.NotFound'', m)"
  shows "vpcPeeringConnectionRefreshState conn ident s
           = ((None, ''deleted'', None),
              \<lparr>remote = w',
               trace = trace s @
                 [DescribeVpcPeeringConnections_ev \<lparr>VpcPeeringConnectionIds = [ident]\<rparr>
                    (resp, Some err)]\<rparr>)"
  using assms
  by (simp add: vpcPeeringConnectionRefreshState_def invoke_def ErrMessageContains_def
      Contains_empty VpcPeeringConnectionStateReasonCodeDeleted_def)

theorem refresh_not_found_deleted_witness:
  "vpcPeeringConnectionRefreshState
     (describe_fails (AWSError ''InvalidVpcPeeringConnectionID.NotFound'' ''no such ID'') conn0)
     ''pcx-1'' s0
   = ((None, ''deleted'', None),
      \<lparr>remote = Suc 0,
       trace =
         [DescribeVpcPeeringConnections_ev \<lparr>VpcPeeringConnectionIds = [''pcx-1'']\<rparr>
            (None, Some (AWSError ''InvalidVpcPeeringConnectionID.NotFound'' ''no such ID''))]\<rparr>)"
  using refresh_not_found_deleted
    [of "describe_fails (AWSError ''InvalidVpcPeeringConnectionID.NotFound'' ''no such ID'') conn0"
      "''pcx-1''" s0 None
      "AWSError ''InvalidVpcPeeringConnectionID.NotFound'' ''no such ID''" "Suc 0"
      "''no such ID''"]
  by (simp add: describe_fails_def s0_def)

text \<open>
  C5: for every connection whose reported status code is \<^verbatim>\<open>failed\<close> (the first
  connection of a describe response that came without error), the status poller returns
  a nil object, the status code \<^verbatim>\<open>failed\<close>, and the error
  \<^verbatim>\<open>errors.New\<close> of the connection's \<^verbatim>\<open>Status.Message\<close>.
\<close>

theorem refresh_failed_error:
  assumes "DescribeVpcPeeringConnections conn \<lparr>VpcPeeringConnectionIds = [ident]\<rparr> (remote s)
             = ((Some out, None), w')"
    and "VpcPeeringConnections out = Some pc # rest"
    and "Status pc = Some st"
    and "Code st = Some ''failed''"
  shows "fst (vpcPeeringConnectionRefreshState conn ident s)
           = (None, ''failed'', Some (ErrorsNew (StringValue (Message st))))"
  using assms
  by (simp add: vpcPeeringConnectionRefreshState_def invoke_def StringValue_def
      VpcPeeringConnectionStateReasonCodeFailed_def)

theorem refresh_failed_error_witness:
  "fst (vpcPeeringConnectionRefreshState
          (describes [Some (pc0 ''failed'' ''overlapping CIDR'')] conn0) ''pcx-1'' s0)
   = (None, ''failed'', Some (ErrorsNew ''overlapping CIDR''))"
  using refresh_failed_error
    [of "describes [Some (pc0 ''failed'' ''overlapping CIDR'')] conn0" "''pcx-1''" s0
      "\<lparr>VpcPeeringConnections = [Some (pc0 ''failed'' ''overlapping CIDR'')]\<rparr>" "Suc 0"
      "pc0 ''failed'' ''overlapping CIDR''" "[]"
      "\<lparr>Code = Some ''failed'', Message = Some ''overlapping CIDR''\<rparr>"]
  by (simp add: describes_def s0_def pc0_def StringValue_def)

text \<open>
  C6: for every connection ID, when \<^verbatim>\<open>DescribeVpcPeeringConnections\<close> succeeds but the
  response is nil, holds no connection, holds a nil first connection, or a first
  connection with a nil \<^verbatim>\<open>Status\<close>, the status poller returns a nil object, the empty
  status string and no error.
\<close>

theorem refresh_empty_response:
  assumes "DescribeVpcPeeringConnections conn \<lparr>VpcPeeringConnectionIds = [ident]\<rparr> (remote s)
             = ((resp, None), w')"
    and "resp = None
         \<or> (\<exists>out. resp = Some out \<and>
               (VpcPeeringConnections out = []
                \<or> (\<exists>rest. VpcPeeringConnections out = None # rest)
                \<or> (\<exists>pc rest. VpcPeeringConnections out = Some pc # rest \<and> Status pc = None)))"
  shows "fst (vpcPeeringConnectionRefreshState conn ident s) = (None, '''', None)"
  using assms
  by (auto simp add: vpcPeeringConnectionRefreshState_def invoke_def)

theorem refresh_empty_response_witness:
  "fst (vpcPeeringConnectionRefreshState (describes [] conn0) ''pcx-1'' s0) = (None, '''', None)
   \<and> fst (vpcPeeringConnectionRefreshState (describes [None] conn0) ''pcx-1'' s0)
       = (None, '''', None)
   \<and> fst (vpcPeeringConnectionRefreshState
            (describes [Some ((pc0 ''active'' ''ok'')\<lparr>Status := None\<rparr>)] conn0) ''pcx-1'' s0)
       = (None, '''', None)"
  using
    refresh_empty_response
      [of "describes [] conn0" "''pcx-1''" s0 "Some \<lparr>VpcPeeringConnections = []\<rparr>" "Suc 0"]
    refresh_empty_response
      [of "describes [None] conn0" "''pcx-1''" s0 "Some \<lparr>VpcPeeringConnections = [None]\<rparr>"
        "Suc 0"]
    refresh_empty_response
      [of "describes [Some ((pc0 ''active'' ''ok'')\<lparr>Status := None\<rparr>)] conn0" "''pcx-1''" s0
        "Some \<lparr>VpcPeeringConnections = [Some ((pc0 ''active'' ''ok'')\<lparr>Status := None\<rparr>)]\<rparr>"
        "Suc 0"]
  by (simp add: describes_def s0_def)

subsection \<open>What a step records\<close>

lemma invoke_calls:
  "invoke ev f s = (a, s') \<Longrightarrow> trace s' = trace s @ [ev a] \<and> f (remote s) = (a, remote s')"
  by (auto simp: invoke_def split: prod.splits)

lemma refresh_trace:
  "vpcPeeringConnectionRefreshState conn ident s = (r, s') \<Longrightarrow>
     \<exists>resp. trace s' = trace s @ [DescribeVpcPeeringConnections_ev
                                      \<lparr>VpcPeeringConnectionIds = [ident]\<rparr> resp]"
  by (auto simp: vpcPeeringConnectionRefreshState_def invoke_def Let_def
      split: prod.splits option.splits list.splits if_splits)

lemma update_tags_trace:
  "update_tags x conn d s = (e, s') \<Longrightarrow>
     \<exists>evs. trace s' = trace s @ evs \<and>
           map api_of evs = (if d_HasChange d ''tags_all'' \<and> \<not> d_IsNewResource d
                             then [ApiUpdateTags] else [])"
  by (auto simp: update_tags_def invoke_def split: prod.splits option.splits if_splits)

subsection \<open>The create handler\<close>

text \<open>
  C9: for every configuration in which both \<^verbatim>\<open>peer_region\<close> and \<^verbatim>\<open>auto_accept\<close>
  are set to non-zero values (\<^verbatim>\<open>GetOk\<close> reports both), the create handler returns the
  error "`peer_region` cannot be set whilst `auto_accept` is `true` when creating an EC2
  VPC Peering Connection"; the session is the one it started in, so neither
  \<^verbatim>\<open>CreateVpcPeeringConnection\<close> nor anything else was called.
\<close>

theorem create_peer_region_auto_accept:
  assumes "snd (d_GetOk d ''peer_region'')" and "snd (d_GetOk d ''auto_accept'')"
  shows "resourceVPCPeeringConnectionCreate x meta d s
           = (Returns (Some (Errorf
                ''`peer_region` cannot be set whilst `auto_accept` is `true` when creating an EC2 VPC Peering Connection''
                [])), d, s)"
proof -
  obtain v where v: "d_GetOk d ''peer_region'' = (v, True)"
    using assms(1) by (cases "d_GetOk d ''peer_region''") auto
  show ?thesis
    using assms(2) by (simp add: resourceVPCPeeringConnectionCreate_def Let_def v)
qed

theorem create_peer_region_auto_accept_witness:
  "resourceVPCPeeringConnectionCreate x0 meta0 d_region_auto s0
     = (Returns (Some (Errorf
          ''`peer_region` cannot be set whilst `auto_accept` is `true` when creating an EC2 VPC Peering Connection''
          [])), d_region_auto, s0)"
proof -
  have h1: "snd (d_GetOk d_region_auto ''peer_region'')"
    by (simp add: d_GetOk_def d_region_auto_def d0_def Schema_def)
  have h2: "snd (d_GetOk d_region_auto ''auto_accept'')"
    by (simp add: d_GetOk_def d_region_auto_def d0_def Schema_def)
  show ?thesis
    using create_peer_region_auto_accept [OF h1 h2, of x0 meta0 s0] by simp
qed

subsection \<open>The update handler: a connection that is gone\<close>

text \<open>
  C10: if the update handler's status refresh (run after the tag step, which did not
  fail) returns a nil connection object with no error, the handler clears the resource
  ID and returns success. The only calls of the run are the tag update, when there was
  one to make, and the describe call of the refresh: no accept, no modification of the
  peering options, no final read.
\<close>

theorem update_gone:
  assumes tags: "update_tags x (EC2Conn meta) d s = (None, s1)"
    and refresh: "vpcPeeringConnectionRefreshState (EC2Conn meta) (d_Id d) s1
                    = ((None, statusCode, None), s2)"
  shows "resourceVPCPeeringConnectionUpdate x meta d s = (Returns None, d_SetId d '''', s2)
         \<and> d_Id (d_SetId d '''') = ''''
         \<and> calls s s2 = (if d_HasChange d ''tags_all'' \<and> \<not> d_IsNewResource d
                          then [ApiUpdateTags, ApiDescribeVpcPeeringConnections]
                          else [ApiDescribeVpcPeeringConnections])"
proof -
  from update_tags_trace[OF tags] obtain evs where
    t1: "trace s1 = trace s @ evs" and
    k1: "map api_of evs = (if d_HasChange d ''tags_all'' \<and> \<not> d_IsNewResource d
                            then [ApiUpdateTags] else [])" by blast
  from refresh_trace[OF refresh] obtain resp where
    t2: "trace s2 = trace s1 @ [DescribeVpcPeeringConnections_ev
                                  \<lparr>VpcPeeringConnectionIds = [d_Id d]\<rparr> resp]" by blast
  have "calls s s2 = map api_of evs @ [ApiDescribeVpcPeeringConnections]"
    using t1 t2 by (simp add: calls_def new_events_def)
  then show ?thesis
    using tags refresh k1
    by (simp add: resourceVPCPeeringConnectionUpdate_def d_SetId_def d_Id_def)
qed

theorem update_gone_witness:
  "resourceVPCPeeringConnectionUpdate x0 (meta0\<lparr>EC2Conn := describes [] conn0\<rparr>) d0 s0
     = (Returns None, d0\<lparr>resource_id := ''''\<rparr>,
        \<lparr>remote = Suc 0,
         trace = [DescribeVpcPeeringConnections_ev \<lparr>VpcPeeringConnectionIds = [''pcx-1'']\<rparr>
                    (Some \<lparr>VpcPeeringConnections = []\<rparr>, None)]\<rparr>)
   \<and> calls s0 \<lparr>remote = Suc 0,
         trace = [DescribeVpcPeeringConnections_ev \<lparr>VpcPeeringConnectionIds = [''pcx-1'']\<rparr>
                    (Some \<lparr>VpcPeeringConnections = []\<rparr>, None)]\<rparr>
       = [ApiDescribeVpcPeeringConnections]"
proof -
  let ?m = "meta0\<lparr>EC2Conn := describes [] conn0\<rparr>"
  let ?s2 = "\<lparr>remote = Suc 0,
         trace = [DescribeVpcPeeringConnections_ev \<lparr>VpcPeeringConnectionIds = [''pcx-1'']\<rparr>
                    (Some \<lparr>VpcPeeringConnections = []\<rparr>, None)]\<rparr>"
  have nochange: "\<not> d_HasChange d0 ''tags_all''"
    by (simp add: d_HasChange_def d0_def)
  have h1: "update_tags x0 (EC2Conn ?m) d0 s0 = (None, s0)"
    using nochange by (simp add: update_tags_def)
  have h2: "vpcPeeringConnectionRefreshState (EC2Conn ?m) (d_Id d0) s0 = ((None, '''', None), ?s2)"
    by (simp add: vpcPeeringConnectionRefreshState_def invoke_def describes_def s0_def
        d_Id_def d0_def)
  show ?thesis
    using update_gone [OF h1 h2] nochange by (simp add: d_SetId_def)
qed

subsection \<open>The delete handler\<close>

text \<open>
  C3: the delete handler returns success (a nil error) when
  \<^verbatim>\<open>DeleteVpcPeeringConnection\<close> fails with the error code
  \<^verbatim>\<open>InvalidVpcPeeringConnectionID.NotFound\<close>, or with an
  \<^verbatim>\<open>InvalidStateTransition\<close> error whose message contains "to deleting"; every other
  delete error is wrapped (\<^verbatim>\<open>%w\<close>) and returned, in each case without a further
  call; after a delete call without error the handler calls
  \<^verbatim>\<open>WaitVPCPeeringConnectionDeleted\<close> and returns what the wait gives: nil, or the
  wait's error in an error of its own.
\<close>

theorem delete_tolerates:
  assumes del: "DeleteVpcPeeringConnection (EC2Conn meta)
                  \<lparr>delete_VpcPeeringConnectionId = Some (d_Id d)\<rparr> (remote s) = (err, w1)"
    and s1: "s1 = \<lparr>remote = w1,
                    trace = trace s @ [DeleteVpcPeeringConnection_ev
                      \<lparr>delete_VpcPeeringConnectionId = Some (d_Id d)\<rparr> err]\<rparr>"
    and wait: "WaitVPCPeeringConnectionDeleted x (EC2Conn meta) (d_Id d) (d_Timeout d ''delete'') w1
                 = ((res, werr), w2)"
  shows "resourceVPCPeeringConnectionDelete x meta d s =
           (case err of
              Some e \<Rightarrow>
                if (\<exists>m. as_awserr e = Some (''InvalidVpcPeeringConnectionID.NotFound'', m))
                   \<or> (\<exists>m. as_awserr e = Some (''InvalidStateTransition'', m)
                           \<and> sublist ''to deleting'' m)
                then (Returns None, d, s1)
                else (Returns (Some (Errorf_w
                        ''error deleting EC2 VPC Peering Connection (%s): %w'' [d_Id d] e)), d, s1)
            | None \<Rightarrow>
                (Returns (case werr of
                            None \<Rightarrow> None
                          | Some e \<Rightarrow> Some (Errorf_s
                              ''error waiting for EC2 VPC Peering Connection (%s) delete: %s''
                              [d_Id d] e)),
                 d,
                 \<lparr>remote = w2,
                  trace = trace s1 @ [WaitVPCPeeringConnectionDeleted_ev (d_Id d)
                                        (d_Timeout d ''delete'') (res, werr)]\<rparr>))"
proof (cases err)
  case None
  then show ?thesis
    using del s1 wait
    by (simp add: resourceVPCPeeringConnectionDelete_def invoke_def ErrCodeEquals_def
        ErrMessageContains_def TimeoutDelete_def split: option.splits)
next
  case (Some e)
  show ?thesis
  proof (cases "as_awserr e")
    case None
    then show ?thesis
      using del s1 Some
      by (simp add: resourceVPCPeeringConnectionDelete_def invoke_def ErrCodeEquals_def
        ErrMessageContains_def)
  next
    case (Some cm)
    obtain c m where cm: "cm = (c, m)" by (cases cm)
    show ?thesis
      using del s1 \<open>err = Some e\<close> Some cm
      by (auto simp add: resourceVPCPeeringConnectionDelete_def invoke_def ErrCodeEquals_def
        ErrMessageContains_def Contains_sublist Let_def
        ErrCodeInvalidVpcPeeringConnectionIDNotFound_def)
  qed
qed

theorem delete_tolerates_witness:
  "fst (resourceVPCPeeringConnectionDelete x0
          (meta0\<lparr>EC2Conn := delete_answers
             (Some (AWSError ''InvalidVpcPeeringConnectionID.NotFound'' ''no such ID'')) conn0\<rparr>)
          d0 s0) = Returns None
   \<and> fst (resourceVPCPeeringConnectionDelete x0
          (meta0\<lparr>EC2Conn := delete_answers
             (Some (AWSError ''InvalidStateTransition'' ''from failed to deleting'')) conn0\<rparr>)
          d0 s0) = Returns None
   \<and> fst (resourceVPCPeeringConnectionDelete x0
          (meta0\<lparr>EC2Conn := delete_answers
             (Some (AWSError ''InvalidStateTransition'' ''from active to rejected'')) conn0\<rparr>)
          d0 s0)
       = Returns (Some (Errorf_w ''error deleting EC2 VPC Peering Connection (%s): %w'' [''pcx-1'']
                    (AWSError ''InvalidStateTransition'' ''from active to rejected'')))
   \<and> resourceVPCPeeringConnectionDelete (deleted_in_time x0)
          (meta0\<lparr>EC2Conn := delete_answers None conn0\<rparr>) d0 s0
       = (Returns None, d0,
          \<lparr>remote = Suc (Suc 0),
           trace = [DeleteVpcPeeringConnection_ev
                      \<lparr>delete_VpcPeeringConnectionId = Some ''pcx-1''\<rparr> None,
                    WaitVPCPeeringConnectionDeleted_ev ''pcx-1'' 60 (None, None)]\<rparr>)"
proof -
  have c: "sublist ''to deleting'' ''from failed to deleting''"
    "\<not> sublist ''to deleting'' ''from active to rejected''"
    by (simp_all add: Contains_sublist [symmetric])
  show ?thesis
    using
      delete_tolerates
        [of "meta0\<lparr>EC2Conn := delete_answers
               (Some (AWSError ''InvalidVpcPeeringConnectionID.NotFound'' ''no such ID'')) conn0\<rparr>"
          d0 s0 "Some (AWSError ''InvalidVpcPeeringConnectionID.NotFound'' ''no such ID'')"
          "Suc 0" _ x0 None "Some (OtherError ''timeout'')" "Suc (Suc 0)"]
      delete_tolerates
        [of "meta0\<lparr>EC2Conn := delete_answers
               (Some (AWSError ''InvalidStateTransition'' ''from failed to deleting'')) conn0\<rparr>"
          d0 s0 "Some (AWSError ''InvalidStateTransition'' ''from failed to deleting'')"
          "Suc 0" _ x0 None "Some (OtherError ''timeout'')" "Suc (Suc 0)"]
      delete_tolerates
        [of "meta0\<lparr>EC2Conn := delete_answers
               (Some (AWSError ''InvalidStateTransition'' ''from active to rejected'')) conn0\<rparr>"
          d0 s0 "Some (AWSError ''InvalidStateTransition'' ''from active to rejected'')"
          "Suc 0" _ x0 None "Some (OtherError ''timeout'')" "Suc (Suc 0)"]
      delete_tolerates
        [of "meta0\<lparr>EC2Conn := delete_answers None conn0\<rparr>" d0 s0 None
          "Suc 0" _ "deleted_in_time x0" None None "Suc (Suc 0)"]
    by (simp add: c delete_answers_def deleted_in_time_def x0_def s0_def d0_def d_Id_def
        d_Timeout_def)
qed

subsection \<open>The read handler\<close>

lemma d_Set_attrs_other:
  "d_Set d k v = (d', e) \<Longrightarrow> k' \<noteq> k \<Longrightarrow> attrs d' k' = attrs d k'"
  by (auto simp: d_Set_def split: option.splits if_splits)

lemma d_Set_fst_attrs_other:
  "k' \<noteq> k \<Longrightarrow> attrs (fst (d_Set d k v)) k' = attrs d k'"
  by (cases "d_Set d k v") (auto dest: d_Set_attrs_other)

lemma d_Set_string_attrs:
  "map_of Schema k = Some TypeString \<Longrightarrow>
     fst (d_Set d k (ptr_String p)) = d\<lparr>attrs := (attrs d)(k \<mapsto> ptr_String p)\<rparr>"
  by (simp add: d_Set_def ptr_String_def split: option.splits)

lemma Schema_string_keys:
  "map_of Schema ''accept_status'' = Some TypeString"
  "map_of Schema ''peer_region'' = Some TypeString"
  "map_of Schema ''peer_owner_id'' = Some TypeString"
  "map_of Schema ''peer_vpc_id'' = Some TypeString"
  "map_of Schema ''vpc_id'' = Some TypeString"
  by (simp_all add: Schema_def)

text \<open>The options and tags part of the read writes four keys only.\<close>

lemma read_options_tags_attrs:
  assumes r: "read_options_tags x meta d accepter requester pc = (e, d')"
    and k: "k \<noteq> ''accepter''" "k \<noteq> ''requester''" "k \<noteq> ''tags''" "k \<noteq> ''tags_all''"
  shows "attrs d' k = attrs d k"
proof -
  define va where
    "va = VList [flattenVpcPeeringConnectionOptionsDescription (PeeringOptions accepter)]"
  define vr where
    "vr = VList [flattenVpcPeeringConnectionOptionsDescription (PeeringOptions requester)]"
  define tags where
    "tags = IgnoreConfig x (IgnoreAWS x (KeyValueTags_of x (Tags pc))) (IgnoreTagsConfig meta)"
  define A where "A = (if PeeringOptions accepter \<noteq> None then d_Set d ''accepter'' va
                       else (fst (d_Set d ''accepter'' VNil), None))"
  obtain da ea where A': "A = (da, ea)" by (cases A)
  have ka: "attrs da k = attrs d k"
    using A' k(1) unfolding A_def
    by (auto split: if_splits simp: d_Set_fst_attrs_other dest: d_Set_attrs_other)
  define B where "B = (if PeeringOptions requester \<noteq> None then d_Set da ''requester'' vr
                       else (fst (d_Set da ''requester'' VNil), None))"
  obtain db eb where B': "B = (db, eb)" by (cases B)
  have kb: "attrs db k = attrs da k"
    using B' k(2) unfolding B_def
    by (auto split: if_splits simp: d_Set_fst_attrs_other dest: d_Set_attrs_other)
  obtain dc ec where
    C': "d_Set db ''tags'' (tags_Map x (RemoveDefaultConfig x tags (DefaultTagsConfig meta)))
           = (dc, ec)"
    by (cases "d_Set db ''tags'' (tags_Map x (RemoveDefaultConfig x tags (DefaultTagsConfig meta)))")
  have kc: "attrs dc k = attrs db k"
    using d_Set_attrs_other[OF C' k(3)] .
  obtain dd ed where D': "d_Set dc ''tags_all'' (tags_Map x tags) = (dd, ed)"
    by (cases "d_Set dc ''tags_all'' (tags_Map x tags)")
  have kd: "attrs dd k = attrs dc k"
    using d_Set_attrs_other[OF D' k(4)] .
  have "d' = da \<or> d' = db \<or> d' = dc \<or> d' = dd"
    using r A' B' C' D'
    unfolding read_options_tags_def Let_def A_def B_def va_def vr_def tags_def
    by (auto split: option.splits)
  then show ?thesis
    using ka kb kc kd by auto
qed

lemma read_role_attrs:
  assumes "read_role meta d pc = Returns d1"
  shows "\<exists>accepter requester.
           AccepterVpcInfo pc = Some accepter \<and> RequesterVpcInfo pc = Some requester \<and>
           (if AccountID meta = StringValue (OwnerId accepter)
               \<and> AccountID meta \<noteq> StringValue (OwnerId requester)
            then attrs d1 ''peer_owner_id'' = Some (ptr_String (OwnerId requester))
                 \<and> attrs d1 ''peer_vpc_id'' = Some (ptr_String (VpcId requester))
                 \<and> attrs d1 ''vpc_id'' = Some (ptr_String (VpcId accepter))
            else attrs d1 ''peer_owner_id'' = Some (ptr_String (OwnerId accepter))
                 \<and> attrs d1 ''peer_vpc_id'' = Some (ptr_String (VpcId accepter))
                 \<and> attrs d1 ''vpc_id'' = Some (ptr_String (VpcId requester)))"
proof -
  from assms obtain st accepter requester where
    st: "Status pc = Some st" and a: "AccepterVpcInfo pc = Some accepter"
    and r: "RequesterVpcInfo pc = Some requester"
    by (auto simp: read_role_def Let_def split: option.splits)
  show ?thesis
  proof (cases "AccountID meta = StringValue (OwnerId accepter)
               \<and> AccountID meta \<noteq> StringValue (OwnerId requester)")
    case True
    then have "d1 = fst (d_Set (fst (d_Set (fst (d_Set
                 (fst (d_Set (fst (d_Set d ''accept_status'' (ptr_String (Code st))))
                    ''peer_region'' (ptr_String (Region accepter))))
                 ''peer_owner_id'' (ptr_String (OwnerId requester))))
                 ''peer_vpc_id'' (ptr_String (VpcId requester))))
                 ''vpc_id'' (ptr_String (VpcId accepter)))"
      using assms st a r unfolding read_role_def Let_def by auto
    then show ?thesis
      using True a r by (auto simp add: d_Set_string_attrs Schema_string_keys)
  next
    case False
    then have "d1 = fst (d_Set (fst (d_Set (fst (d_Set
                 (fst (d_Set (fst (d_Set d ''accept_status'' (ptr_String (Code st))))
                    ''peer_region'' (ptr_String (Region accepter))))
                 ''peer_owner_id'' (ptr_String (OwnerId accepter))))
                 ''peer_vpc_id'' (ptr_String (VpcId accepter))))
                 ''vpc_id'' (ptr_String (VpcId requester)))"
      using assms st a r by (auto simp add: read_role_def Let_def)
    then show ?thesis
      using False a r by (auto simp add: d_Set_string_attrs Schema_string_keys)
  qed
qed

text \<open>
  C7: after a successful read (the finder returned the connection without error, the
  read did not take its not-found path, and the handler returned nil), the role follows
  from the account IDs alone: if the caller's account ID equals the accepter's owner ID
  and differs from the requester's owner ID, \<^verbatim>\<open>peer_owner_id\<close> and \<^verbatim>\<open>peer_vpc_id\<close>
  hold the requester's owner ID and VPC ID and \<^verbatim>\<open>vpc_id\<close> the accepter's VPC ID; in
  every other case (also when both owner IDs equal the caller's account ID) the peer
  fields hold the accepter's owner ID and VPC ID and \<^verbatim>\<open>vpc_id\<close> the requester's VPC ID.
\<close>

theorem read_role_by_account:
  assumes find: "FindVPCPeeringConnectionByID x (EC2Conn meta) (d_Id d) (remote s)
                   = ((Some pc, None), w1)"
    and found: "\<not> (\<not> d_IsNewResource d \<and> NotFound x None)"
    and ok: "resourceVPCPeeringConnectionRead x meta d s = (Returns None, d', s')"
  shows "\<exists>accepter requester.
           AccepterVpcInfo pc = Some accepter \<and> RequesterVpcInfo pc = Some requester \<and>
           (if AccountID meta = StringValue (OwnerId accepter)
               \<and> AccountID meta \<noteq> StringValue (OwnerId requester)
            then attrs d' ''peer_owner_id'' = Some (ptr_String (OwnerId requester))
                 \<and> attrs d' ''peer_vpc_id'' = Some (ptr_String (VpcId requester))
                 \<and> attrs d' ''vpc_id'' = Some (ptr_String (VpcId accepter))
            else attrs d' ''peer_owner_id'' = Some (ptr_String (OwnerId accepter))
                 \<and> attrs d' ''peer_vpc_id'' = Some (ptr_String (VpcId accepter))
                 \<and> attrs d' ''vpc_id'' = Some (ptr_String (VpcId requester)))"
proof -
  from ok find found obtain d1 accepter requester e where
    role: "read_role meta d pc = Returns d1" and
    rest: "read_options_tags x meta d1 accepter requester pc = (e, d')"
    by (auto simp: resourceVPCPeeringConnectionRead_def invoke_def Let_def
        split: prod.splits option.splits go.splits if_splits)
  have keep: "attrs d' ''peer_owner_id'' = attrs d1 ''peer_owner_id''"
    "attrs d' ''peer_vpc_id'' = attrs d1 ''peer_vpc_id''"
    "attrs d' ''vpc_id'' = attrs d1 ''vpc_id''"
    using read_options_tags_attrs[OF rest] by simp_all
  show ?thesis
    using read_role_attrs[OF role] unfolding keep .
qed

theorem read_role_by_account_witness:
  "attrs (fst (snd (resourceVPCPeeringConnectionRead (finds (pc0 ''active'' ''ok'') x0) meta0 d0 s0)))
      ''peer_owner_id'' = Some (VString ''222222222222'')
   \<and> attrs (fst (snd (resourceVPCPeeringConnectionRead (finds (pc0 ''active'' ''ok'') x0) meta0 d0 s0)))
      ''peer_vpc_id'' = Some (VString ''vpc-b'')
   \<and> attrs (fst (snd (resourceVPCPeeringConnectionRead (finds (pc0 ''active'' ''ok'') x0) meta0 d0 s0)))
      ''vpc_id'' = Some (VString ''vpc-a'')
   \<and> attrs (fst (snd (resourceVPCPeeringConnectionRead (finds (pc0 ''active'' ''ok'') x0)
                         (meta0\<lparr>AccountID := ''222222222222''\<rparr>) d0 s0)))
      ''peer_owner_id'' = Some (VString ''111111111111'')
   \<and> attrs (fst (snd (resourceVPCPeeringConnectionRead (finds (pc0 ''active'' ''ok'') x0)
                         (meta0\<lparr>AccountID := ''222222222222''\<rparr>) d0 s0)))
      ''peer_vpc_id'' = Some (VString ''vpc-a'')
   \<and> attrs (fst (snd (resourceVPCPeeringConnectionRead (finds (pc0 ''active'' ''ok'') x0)
                         (meta0\<lparr>AccountID := ''222222222222''\<rparr>) d0 s0)))
      ''vpc_id'' = Some (VString ''vpc-b'')"
proof -
  let ?x = "finds (pc0 ''active'' ''ok'') x0"
  let ?m = "meta0\<lparr>AccountID := ''222222222222''\<rparr>"
  have find: "FindVPCPeeringConnectionByID ?x (EC2Conn m) (d_Id d0) (remote s0)
                = ((Some (pc0 ''active'' ''ok''), None), Suc 0)" for m
    by (simp add: finds_def s0_def)
  have found: "\<not> (\<not> d_IsNewResource d0 \<and> NotFound ?x None)"
    by (simp add: finds_def x0_def)
  have r1: "fst (resourceVPCPeeringConnectionRead ?x meta0 d0 s0) = Returns None"
    by (simp add: resourceVPCPeeringConnectionRead_def invoke_def finds_def x0_def meta0_def
      d0_def s0_def pc0_def read_role_def read_options_tags_def d_Set_def Schema_def
      d_IsNewResource_def d_Id_def ptr_String_def StringValue_def Let_def
      flattenVpcPeeringConnectionOptionsDescription_def)
  have r2: "fst (resourceVPCPeeringConnectionRead ?x ?m d0 s0) = Returns None"
    by (simp add: resourceVPCPeeringConnectionRead_def invoke_def finds_def x0_def meta0_def
      d0_def s0_def pc0_def read_role_def read_options_tags_def d_Set_def Schema_def
      d_IsNewResource_def d_Id_def ptr_String_def StringValue_def Let_def
      flattenVpcPeeringConnectionOptionsDescription_def)
  have ok1: "resourceVPCPeeringConnectionRead ?x meta0 d0 s0
               = (Returns None, fst (snd (resourceVPCPeeringConnectionRead ?x meta0 d0 s0)),
                  snd (snd (resourceVPCPeeringConnectionRead ?x meta0 d0 s0)))"
    using r1 by (metis prod.collapse)
  have ok2: "resourceVPCPeeringConnectionRead ?x ?m d0 s0
               = (Returns None, fst (snd (resourceVPCPeeringConnectionRead ?x ?m d0 s0)),
                  snd (snd (resourceVPCPeeringConnectionRead ?x ?m d0 s0)))"
    using r2 by (metis prod.collapse)
  show ?thesis
    using read_role_by_account [OF find found ok1] read_role_by_account [OF find found ok2]
    by (simp add: pc0_def meta0_def StringValue_def ptr_String_def)
qed

subsection \<open>The update handler: accepting and the peering options\<close>

lemma accept_trace:
  "resourceVPCPeeringConnectionAccept conn ident s = (r, s') \<Longrightarrow>
     \<exists>resp. trace s' = trace s @ [AcceptVpcPeeringConnection_ev
                                     \<lparr>accept_VpcPeeringConnectionId = Some ident\<rparr> resp]
            \<and> AcceptVpcPeeringConnection conn \<lparr>accept_VpcPeeringConnectionId = Some ident\<rparr>
                 (remote s) = (resp, remote s')"
  by (auto simp: resourceVPCPeeringConnectionAccept_def invoke_def Let_def
      split: prod.splits option.splits)

lemma wait_trace:
  "vpcPeeringConnectionWaitUntilAvailable x conn ident t s = (e, s') \<Longrightarrow>
     \<exists>res. trace s' = trace s @ [WaitForState_ev (availableStateConf conn ident t) res]
          \<and> WaitForState x (availableStateConf conn ident t) (remote s) = (res, remote s')
          \<and> e = (case snd res of
                    None \<Rightarrow> None
                  | Some err \<Rightarrow> Some (Errorf_s
                      ''Error waiting for VPC Peering Connection (%s) to become available: %s''
                      [ident] err))"
  by (auto simp: vpcPeeringConnectionWaitUntilAvailable_def invoke_def Let_def
      split: prod.splits option.splits)

lemma update_accept_skip:
  "\<not> (snd (d_GetOk d ''auto_accept'') \<and> statusCode = ''pending-acceptance'') \<Longrightarrow>
     update_accept x conn d statusCode s = (Continue statusCode, s)"
  by (auto simp: update_accept_def VpcPeeringConnectionStateReasonCodePendingAcceptance_def)

lemma update_accept_trace:
  assumes "update_accept x conn d statusCode s = (f, s')"
  shows "\<exists>evs. trace s' = trace s @ evs \<and>
           (if snd (d_GetOk d ''auto_accept'') \<and> statusCode = ''pending-acceptance''
            then map api_of evs = [ApiAcceptVpcPeeringConnection]
                 \<or> map api_of evs = [ApiAcceptVpcPeeringConnection, ApiWaitForState]
            else evs = [])"
proof (cases "snd (d_GetOk d ''auto_accept'') \<and> statusCode = ''pending-acceptance''")
  case False
  then show ?thesis using assms update_accept_skip[OF False, of x conn s] by auto
next
  case True
  obtain r s2 where a: "resourceVPCPeeringConnectionAccept conn (d_Id d) s = (r, s2)"
    by (cases "resourceVPCPeeringConnectionAccept conn (d_Id d) s")
  from accept_trace[OF a] obtain resp where
    t2: "trace s2 = trace s @ [AcceptVpcPeeringConnection_ev
                                 \<lparr>accept_VpcPeeringConnectionId = Some (d_Id d)\<rparr> resp]" by blast
  obtain e s3 where w: "vpcPeeringConnectionWaitUntilAvailable x conn (d_Id d)
                          (d_Timeout d TimeoutUpdate) s2 = (e, s3)"
    by (cases "vpcPeeringConnectionWaitUntilAvailable x conn (d_Id d)
                          (d_Timeout d TimeoutUpdate) s2")
  from wait_trace[OF w] obtain res where
    t3: "trace s3 = trace s2 @ [WaitForState_ev
           (availableStateConf conn (d_Id d) (d_Timeout d TimeoutUpdate)) res]" by blast
  have "s' = s2 \<or> s' = s3"
    using assms True a w
    by (auto simp: update_accept_def VpcPeeringConnectionStateReasonCodePendingAcceptance_def
        split: go.splits prod.splits option.splits)
  then show ?thesis
    using True t2 t3 by auto
qed

lemma update_options_trace:
  assumes "update_options x conn d pc statusCode s = (f, s')"
  shows "\<exists>evs. trace s' = trace s @ evs \<and>
           (if d_HasChanges d [''accepter'', ''requester'']
               \<and> (statusCode = ''active'' \<or> statusCode = ''provisioning'')
               \<and> RequesterVpcInfo pc \<noteq> None \<and> AccepterVpcInfo pc \<noteq> None
            then map api_of evs = [ApiModifyVpcPeeringConnectionOptions]
            else evs = [])"
  using assms
  by (auto simp: update_options_def invoke_def Let_def
      VpcPeeringConnectionStateReasonCodeActive_def
      VpcPeeringConnectionStateReasonCodeProvisioning_def
      split: prod.splits option.splits if_splits)

lemma read_trace:
  "resourceVPCPeeringConnectionRead x meta d s = (r, d', s') \<Longrightarrow>
     \<exists>res. trace s' = trace s @ [FindVPCPeeringConnectionByID_ev (d_Id d) res]"
  by (auto simp: resourceVPCPeeringConnectionRead_def invoke_def Let_def
      split: prod.splits option.splits go.splits if_splits)

lemma update_accept_status:
  assumes "update_accept x conn d status0 s = (Continue statusCode, s')"
  shows "if snd (d_GetOk d ''auto_accept'') \<and> status0 = ''pending-acceptance''
         then \<exists>s2. resourceVPCPeeringConnectionAccept conn (d_Id d) s = (Returns (statusCode, None), s2)
         else statusCode = status0 \<and> s' = s"
  using assms
  by (auto simp: update_accept_def VpcPeeringConnectionStateReasonCodePendingAcceptance_def
      split: go.splits prod.splits option.splits if_splits)

lemma update_unfold:
  assumes tags: "update_tags x (EC2Conn meta) d s = (None, s1)"
    and refresh: "vpcPeeringConnectionRefreshState (EC2Conn meta) (d_Id d) s1
                    = ((Some pc, status0, None), s2)"
    and accept: "update_accept x (EC2Conn meta) d status0 s2 = (Continue statusCode, s3)"
    and opt: "update_options x (EC2Conn meta) d pc statusCode s3 = (f, s4)"
  shows "resourceVPCPeeringConnectionUpdate x meta d s =
           (case f of Exit r \<Rightarrow> (r, d, s4)
            | Continue u \<Rightarrow> resourceVPCPeeringConnectionRead x meta d s4)"
  using assms
  by (simp add: resourceVPCPeeringConnectionUpdate_def split: flow.splits)

subsection \<open>The update handler: auto-accept\<close>

lemma refresh_pending:
  assumes "vpcPeeringConnectionRefreshState conn ident s = ((pcRaw, ''pending-acceptance'', err), s')"
  shows "err = None \<and> pcRaw \<noteq> None"
  using assms
  by (auto simp: vpcPeeringConnectionRefreshState_def invoke_def Let_def
      VpcPeeringConnectionStateReasonCodeDeleted_def VpcPeeringConnectionStateReasonCodeFailed_def
      split: prod.splits option.splits list.splits if_splits)

lemma update_accept_run:
  assumes go: "snd (d_GetOk d ''auto_accept'')" "statusCode = ''pending-acceptance''"
    and accept: "resourceVPCPeeringConnectionAccept conn (d_Id d) s2 = (a, s3)"
    and wait: "WaitForState x (availableStateConf conn (d_Id d) (d_Timeout d ''update''))
                 (remote s3) = ((res, werr), w4)"
  shows "update_accept x conn d statusCode s2 =
      (case a of
         Panics \<Rightarrow> (Exit Panics, s3)
       | Returns (st, Some e) \<Rightarrow>
           (Exit (Returns (Some (Errorf_s ''Unable to accept VPC Peering Connection: %s''
                                   [] e))), s3)
       | Returns (st, None) \<Rightarrow>
           (case werr of
              Some e \<Rightarrow>
                Exit (Returns (Some (Errorf_s
                  ''Error waiting for VPC Peering Connection to become available: %s'' []
                  (Errorf_s
                     ''Error waiting for VPC Peering Connection (%s) to become available: %s''
                     [d_Id d] e))))
            | None \<Rightarrow> Continue st,
            \<lparr>remote = w4,
             trace = trace s3 @ [WaitForState_ev
               (availableStateConf conn (d_Id d) (d_Timeout d ''update'')) (res, werr)]\<rparr>))"
  using assms
  by (auto simp: update_accept_def vpcPeeringConnectionWaitUntilAvailable_def invoke_def Let_def
      VpcPeeringConnectionStateReasonCodePendingAcceptance_def TimeoutUpdate_def
      split: go.splits prod.splits option.splits)

lemma update_tail_trace:
  assumes opt: "update_options x (EC2Conn meta) d pc st s3 = (f, s4)"
    and tail: "(r, d', s') = (case f of Exit r \<Rightarrow> (r, d, s4)
                              | Continue u \<Rightarrow> resourceVPCPeeringConnectionRead x meta d s4)"
  shows "\<exists>evs. trace s' = trace s3 @ evs
            \<and> ApiAcceptVpcPeeringConnection \<notin> set (map api_of evs)
            \<and> ApiWaitForState \<notin> set (map api_of evs)"
proof -
  from update_options_trace[OF opt] obtain e4 where
    t4: "trace s4 = trace s3 @ e4" and
    k4: "map api_of e4 = [ApiModifyVpcPeeringConnectionOptions] \<or> e4 = []"
    by (auto split: if_splits)
  have n4: "ApiAcceptVpcPeeringConnection \<notin> set (map api_of e4)
            \<and> ApiWaitForState \<notin> set (map api_of e4)"
    using k4 by (elim disjE) (simp_all del: set_map)
  show ?thesis
  proof (cases f)
    case (Exit r0)
    have "(r, d', s') = (r0, d, s4)"
      using tail unfolding Exit by (simp only: flow.case)
    then have "s' = s4" by (simp only: prod.inject)
    then show ?thesis using t4 n4 by (intro exI [of _ e4]) simp
  next
    case (Continue u)
    have "(r, d', s') = resourceVPCPeeringConnectionRead x meta d s4"
      using tail unfolding Continue by (simp only: flow.case)
    then have "resourceVPCPeeringConnectionRead x meta d s4 = (r, d', s')"
      by (rule sym)
    from read_trace[OF this] obtain res where
      t5: "trace s' = trace s4 @ [FindVPCPeeringConnectionByID_ev (d_Id d) res]"
      by (elim exE)
    show ?thesis
      using t4 t5 n4
      by (intro exI [of _ "e4 @ [FindVPCPeeringConnectionByID_ev (d_Id d) res]"]) simp
  qed
qed

lemma update_tags_failed:
  "update_tags x (EC2Conn meta) d s = (Some e, s1) \<Longrightarrow>
     resourceVPCPeeringConnectionUpdate x meta d s = (Returns (Some e), d, s1)"
  by (simp add: resourceVPCPeeringConnectionUpdate_def)

lemma update_refresh_failed:
  "update_tags x (EC2Conn meta) d s = (None, s1) \<Longrightarrow>
   vpcPeeringConnectionRefreshState (EC2Conn meta) (d_Id d) s1 = ((pcRaw, st, err), s2) \<Longrightarrow>
   err \<noteq> None \<or> pcRaw = None \<Longrightarrow>
     snd (snd (resourceVPCPeeringConnectionUpdate x meta d s)) = s2"
  by (auto simp add: resourceVPCPeeringConnectionUpdate_def Let_def split: option.splits)

lemma update_unfold_accept:
  assumes "update_tags x (EC2Conn meta) d s = (None, s1)"
    and "vpcPeeringConnectionRefreshState (EC2Conn meta) (d_Id d) s1
           = ((Some pc, status0, None), s2)"
    and "update_accept x (EC2Conn meta) d status0 s2 = (Exit r, s3)"
  shows "resourceVPCPeeringConnectionUpdate x meta d s = (r, d, s3)"
  using assms by (simp add: resourceVPCPeeringConnectionUpdate_def)

lemma update_no_accept:
  assumes tags: "update_tags x (EC2Conn meta) d s = (e1, s1)"
    and refresh: "vpcPeeringConnectionRefreshState (EC2Conn meta) (d_Id d) s1
                    = ((pcRaw, statusCode, err), s2)"
    and run: "resourceVPCPeeringConnectionUpdate x meta d s = (r, d', s')"
    and nogo: "\<not> (e1 = None \<and> snd (d_GetOk d ''auto_accept'')
                  \<and> statusCode = ''pending-acceptance'')"
  shows "ApiAcceptVpcPeeringConnection \<notin> set (calls s s')"
proof -
  from update_tags_trace[OF tags] obtain ev1 where
    t1: "trace s1 = trace s @ ev1" and
    k1: "map api_of ev1 = (if d_HasChange d ''tags_all'' \<and> \<not> d_IsNewResource d
                            then [ApiUpdateTags] else [])" by (elim exE conjE)
  define a1 where "a1 = map api_of ev1"
  have n1: "ApiAcceptVpcPeeringConnection \<notin> set a1"
    using k1 unfolding a1_def [symmetric] by (simp split: if_splits)
  show ?thesis
  proof (cases e1)
    case (Some e)
    have "resourceVPCPeeringConnectionUpdate x meta d s = (Returns (Some e), d, s1)"
      using tags unfolding Some by (rule update_tags_failed)
    then have "s' = s1" using run by simp
    then have "calls s s' = a1"
      using t1 by (simp add: calls_def new_events_def a1_def)
    then show ?thesis using n1 by simp
  next
    case None
    note tags' = tags [unfolded None]
    from refresh_trace[OF refresh] obtain resp where
      t2: "trace s2 = trace s1 @ [DescribeVpcPeeringConnections_ev
                                    \<lparr>VpcPeeringConnectionIds = [d_Id d]\<rparr> resp]"
      by (elim exE)
    show ?thesis
    proof (cases "err \<noteq> None \<or> pcRaw = None")
      case True
      have "snd (snd (resourceVPCPeeringConnectionUpdate x meta d s)) = s2"
        using tags' refresh True by (rule update_refresh_failed)
      then have "s' = s2" using run by simp
      then have "calls s s' = a1 @ [ApiDescribeVpcPeeringConnections]"
        using t1 t2 by (simp add: calls_def new_events_def a1_def)
      then show ?thesis using n1 by simp
    next
      case False
      then obtain pc where pc: "pcRaw = Some pc" and err: "err = None" by auto
      note refresh' = refresh [unfolded pc err]
      have skip: "\<not> (snd (d_GetOk d ''auto_accept'') \<and> statusCode = ''pending-acceptance'')"
        using nogo None by simp
      have acc: "update_accept x (EC2Conn meta) d statusCode s2 = (Continue statusCode, s2)"
        using skip by (rule update_accept_skip)
      obtain f s4 where opt: "update_options x (EC2Conn meta) d pc statusCode s2 = (f, s4)"
        by (cases "update_options x (EC2Conn meta) d pc statusCode s2")
      have tail: "(r, d', s') = (case f of Exit r \<Rightarrow> (r, d, s4)
                              | Continue u \<Rightarrow> resourceVPCPeeringConnectionRead x meta d s4)"
        by (rule trans [OF run [symmetric] update_unfold [OF tags' refresh' acc opt]])
      from update_tail_trace[OF opt tail] obtain evs where
        t3: "trace s' = trace s2 @ evs" and
        n3: "ApiAcceptVpcPeeringConnection \<notin> set (map api_of evs)"
        by (elim exE conjE)
      have "calls s s' = a1 @ [ApiDescribeVpcPeeringConnections] @ map api_of evs"
        using t1 t2 t3 by (simp add: calls_def new_events_def a1_def)
      then show ?thesis using n1 n3 by simp
    qed
  qed
qed

lemma update_accepting:
  assumes tags: "update_tags x (EC2Conn meta) d s = (None, s1)"
    and refresh: "vpcPeeringConnectionRefreshState (EC2Conn meta) (d_Id d) s1
                    = ((pcRaw, ''pending-acceptance'', err), s2)"
    and auto: "snd (d_GetOk d ''auto_accept'')"
    and accept: "resourceVPCPeeringConnectionAccept (EC2Conn meta) (d_Id d) s2 = (a, s3)"
    and conf: "conf = availableStateConf (EC2Conn meta) (d_Id d) (d_Timeout d ''update'')"
    and wait: "WaitForState x conf (remote s3) = ((res, werr), w4)"
    and run: "resourceVPCPeeringConnectionUpdate x meta d s = (r, d', s')"
  shows "ApiAcceptVpcPeeringConnection \<in> set (calls s s')
         \<and> (case a of
               Returns (st, None) \<Rightarrow>
                 (\<exists>pre post. calls s s'
                    = pre @ [ApiAcceptVpcPeeringConnection, ApiWaitForState] @ post)
                 \<and> WaitForState_ev conf (res, werr) \<in> set (new_events s s')
                 \<and> (\<forall>e. werr = Some e \<longrightarrow>
                       r = Returns (Some (Errorf_s
                         ''Error waiting for VPC Peering Connection to become available: %s'' []
                         (Errorf_s
                           ''Error waiting for VPC Peering Connection (%s) to become available: %s''
                           [d_Id d] e))))
             | Returns (st, Some e) \<Rightarrow>
                 r = Returns (Some (Errorf_s ''Unable to accept VPC Peering Connection: %s'' [] e))
                 \<and> ApiWaitForState \<notin> set (calls s s')
             | Panics \<Rightarrow> r = Panics \<and> ApiWaitForState \<notin> set (calls s s'))"
proof -
  let ?conn = "EC2Conn meta"
  from update_tags_trace[OF tags] obtain ev1 where
    t1: "trace s1 = trace s @ ev1" and
    k1: "map api_of ev1 = (if d_HasChange d ''tags_all'' \<and> \<not> d_IsNewResource d
                            then [ApiUpdateTags] else [])" by (elim exE conjE)
  define a1 where "a1 = map api_of ev1"
  have n1: "ApiWaitForState \<notin> set a1"
    using k1 unfolding a1_def [symmetric] by (simp split: if_splits)
  from refresh_trace[OF refresh] obtain resp where
    t2: "trace s2 = trace s1 @ [DescribeVpcPeeringConnections_ev
                                  \<lparr>VpcPeeringConnectionIds = [d_Id d]\<rparr> resp]"
    by (elim exE)
  from refresh_pending[OF refresh] obtain pc where pc: "pcRaw = Some pc" and err: "err = None"
    by auto
  note refresh' = refresh [unfolded pc err]
  from accept_trace[OF accept] obtain aresp where
    t3: "trace s3 = trace s2 @ [AcceptVpcPeeringConnection_ev
                                  \<lparr>accept_VpcPeeringConnectionId = Some (d_Id d)\<rparr> aresp]"
    by (elim exE conjE)
  define sw where
    "sw = \<lparr>remote = w4, trace = trace s3 @ [WaitForState_ev conf (res, werr)]\<rparr>"
  have c3: "calls s s3 = a1 @ [ApiDescribeVpcPeeringConnections, ApiAcceptVpcPeeringConnection]"
    using t1 t2 t3 by (simp add: calls_def new_events_def a1_def)
  have cw: "calls s sw = a1 @ [ApiDescribeVpcPeeringConnections, ApiAcceptVpcPeeringConnection,
                               ApiWaitForState]"
    using t1 t2 t3 by (simp add: calls_def new_events_def a1_def sw_def)
  have ew: "WaitForState_ev conf (res, werr) \<in> set (new_events s sw)"
    using t1 t2 t3 by (simp add: new_events_def sw_def)
  note ua = update_accept_run [OF auto refl accept wait [unfolded conf], folded conf sw_def]
  show ?thesis
  proof (cases a)
    case Panics
    have "update_accept x ?conn d ''pending-acceptance'' s2 = (Exit Panics, s3)"
      using ua unfolding Panics by simp
    from update_unfold_accept[OF tags refresh' this] run
    have "r = Panics" "s' = s3" by simp_all
    then show ?thesis using c3 n1 Panics by simp
  next
    case (Returns p)
    obtain st eo where p: "p = (st, eo)" by (cases p)
    show ?thesis
    proof (cases eo)
      case (Some e)
      have "update_accept x ?conn d ''pending-acceptance'' s2 =
              (Exit (Returns (Some (Errorf_s ''Unable to accept VPC Peering Connection: %s''
                                      [] e))), s3)"
        using ua unfolding Returns p Some by simp
      from update_unfold_accept[OF tags refresh' this] run
      have "r = Returns (Some (Errorf_s ''Unable to accept VPC Peering Connection: %s'' [] e))"
        "s' = s3" by simp_all
      then show ?thesis using c3 n1 Returns p Some by simp
    next
      case None
      show ?thesis
      proof (cases werr)
        case (Some e)
        have "update_accept x ?conn d ''pending-acceptance'' s2 =
              (Exit (Returns (Some (Errorf_s
                  ''Error waiting for VPC Peering Connection to become available: %s'' []
                  (Errorf_s
                     ''Error waiting for VPC Peering Connection (%s) to become available: %s''
                     [d_Id d] e)))), sw)"
          using ua unfolding Returns p None Some by simp
        from update_unfold_accept[OF tags refresh' this] run
        have r: "r = Returns (Some (Errorf_s
                  ''Error waiting for VPC Peering Connection to become available: %s'' []
                  (Errorf_s
                     ''Error waiting for VPC Peering Connection (%s) to become available: %s''
                     [d_Id d] e)))" and s': "s' = sw" by simp_all
        have shape: "\<exists>pre post. calls s s'
                    = pre @ [ApiAcceptVpcPeeringConnection, ApiWaitForState] @ post"
          unfolding s' cw
          by (intro exI [of _ "a1 @ [ApiDescribeVpcPeeringConnections]"] exI [of _ "[]"]) simp
        have "ApiAcceptVpcPeeringConnection \<in> set (calls s s')"
          unfolding s' cw by simp
        then show ?thesis
          using shape ew r Some unfolding Returns p None s' by simp
      next
        case wnone: None
        have acc: "update_accept x ?conn d ''pending-acceptance'' s2 = (Continue st, sw)"
          using ua unfolding Returns p None wnone by simp
        obtain f s4 where opt: "update_options x ?conn d pc st sw = (f, s4)"
          by (cases "update_options x ?conn d pc st sw")
        have tail: "(r, d', s') = (case f of Exit r \<Rightarrow> (r, d, s4)
                              | Continue u \<Rightarrow> resourceVPCPeeringConnectionRead x meta d s4)"
          by (rule trans [OF run [symmetric] update_unfold [OF tags refresh' acc opt]])
        from update_tail_trace[OF opt tail] obtain evs where
          t5: "trace s' = trace sw @ evs" by (elim exE conjE)
        have c: "calls s s' = a1 @ [ApiDescribeVpcPeeringConnections,
                   ApiAcceptVpcPeeringConnection, ApiWaitForState] @ map api_of evs"
          using t1 t2 t3 t5 by (simp add: calls_def new_events_def a1_def sw_def)
        have shape: "\<exists>pre post. calls s s'
                    = pre @ [ApiAcceptVpcPeeringConnection, ApiWaitForState] @ post"
          unfolding c
          by (intro exI [of _ "a1 @ [ApiDescribeVpcPeeringConnections]"]
                exI [of _ "map api_of evs"]) simp
        have mem: "ApiAcceptVpcPeeringConnection \<in> set (calls s s')"
          unfolding c by simp
        have ev: "WaitForState_ev conf (res, werr) \<in> set (new_events s s')"
          using t1 t2 t3 t5 by (simp add: new_events_def sw_def)
        show ?thesis
          using shape mem ev wnone unfolding Returns p None by simp
      qed
    qed
  qed
qed

text \<open>
  C1, as the code has it: in the update handler \<^verbatim>\<open>AcceptVpcPeeringConnection\<close> is
  called if and only if the tag step did not fail, \<^verbatim>\<open>auto_accept\<close> is set and the
  refreshed status code equals \<^verbatim>\<open>pending-acceptance\<close>. When the accept call returns
  without error (and with a connection status), the handler next calls
  \<^verbatim>\<open>WaitForState\<close> with the pending statuses \<^verbatim>\<open>initiating-request\<close>,
  \<^verbatim>\<open>provisioning\<close>, the target statuses \<^verbatim>\<open>pending-acceptance\<close>, \<^verbatim>\<open>active\<close>
  and the status poller as its refresh function, and returns an error if the wait
  fails. When the accept call returns an error, the handler returns "Unable to accept
  VPC Peering Connection" and does not wait.
\<close>

theorem update_auto_accept:
  assumes tags: "update_tags x (EC2Conn meta) d s = (e1, s1)"
    and refresh: "vpcPeeringConnectionRefreshState (EC2Conn meta) (d_Id d) s1
                    = ((pcRaw, statusCode, err), s2)"
    and accept: "resourceVPCPeeringConnectionAccept (EC2Conn meta) (d_Id d) s2 = (a, s3)"
    and conf: "conf = availableStateConf (EC2Conn meta) (d_Id d) (d_Timeout d ''update'')"
    and wait: "WaitForState x conf (remote s3) = ((res, werr), w4)"
    and run: "resourceVPCPeeringConnectionUpdate x meta d s = (r, d', s')"
  shows "(ApiAcceptVpcPeeringConnection \<in> set (calls s s')
            \<longleftrightarrow> e1 = None \<and> snd (d_GetOk d ''auto_accept'')
                \<and> statusCode = ''pending-acceptance'')
         \<and> (ApiAcceptVpcPeeringConnection \<in> set (calls s s') \<longrightarrow>
              (case a of
                 Returns (st, None) \<Rightarrow>
                   (\<exists>pre post. calls s s'
                      = pre @ [ApiAcceptVpcPeeringConnection, ApiWaitForState] @ post)
                   \<and> WaitForState_ev conf (res, werr) \<in> set (new_events s s')
                   \<and> (\<forall>e. werr = Some e \<longrightarrow>
                         r = Returns (Some (Errorf_s
                           ''Error waiting for VPC Peering Connection to become available: %s'' []
                           (Errorf_s
                             ''Error waiting for VPC Peering Connection (%s) to become available: %s''
                             [d_Id d] e))))
               | Returns (st, Some e) \<Rightarrow>
                   r = Returns (Some (Errorf_s ''Unable to accept VPC Peering Connection: %s''
                                        [] e))
                   \<and> ApiWaitForState \<notin> set (calls s s')
               | Panics \<Rightarrow> r = Panics \<and> ApiWaitForState \<notin> set (calls s s')))
         \<and> Pending conf = [''initiating-request'', ''provisioning'']
         \<and> Target conf = [''pending-acceptance'', ''active'']
         \<and> Refresh conf = quiet (vpcPeeringConnectionRefreshState (EC2Conn meta) (d_Id d))"
proof (cases "e1 = None \<and> snd (d_GetOk d ''auto_accept'') \<and> statusCode = ''pending-acceptance''")
  case True
  then have e1: "e1 = None" and auto: "snd (d_GetOk d ''auto_accept'')"
    and st: "statusCode = ''pending-acceptance''" by simp_all
  note acc = update_accepting [OF tags [unfolded e1] refresh [unfolded st] auto accept conf wait run]
  have fields: "Pending conf = [''initiating-request'', ''provisioning'']
         \<and> Target conf = [''pending-acceptance'', ''active'']
         \<and> Refresh conf = quiet (vpcPeeringConnectionRefreshState (EC2Conn meta) (d_Id d))"
    unfolding conf by (simp add: availableStateConf_def
        VpcPeeringConnectionStateReasonCodeInitiatingRequest_def
        VpcPeeringConnectionStateReasonCodeProvisioning_def
        VpcPeeringConnectionStateReasonCodePendingAcceptance_def
        VpcPeeringConnectionStateReasonCodeActive_def)
  show ?thesis
    using True acc fields by blast
next
  case False
  note no = update_no_accept [OF tags refresh run False]
  have fields: "Pending conf = [''initiating-request'', ''provisioning'']
         \<and> Target conf = [''pending-acceptance'', ''active'']
         \<and> Refresh conf = quiet (vpcPeeringConnectionRefreshState (EC2Conn meta) (d_Id d))"
    unfolding conf by (simp add: availableStateConf_def
        VpcPeeringConnectionStateReasonCodeInitiatingRequest_def
        VpcPeeringConnectionStateReasonCodeProvisioning_def
        VpcPeeringConnectionStateReasonCodePendingAcceptance_def
        VpcPeeringConnectionStateReasonCodeActive_def)
  show ?thesis
    using False no fields by blast
qed

theorem update_auto_accept_witness:
  "ApiAcceptVpcPeeringConnection
     \<in> set (calls s0 (snd (snd (resourceVPCPeeringConnectionUpdate x0
          (meta0\<lparr>EC2Conn := accepts (pc0 ''provisioning'' ''ok'')
             (describes [Some (pc0 ''pending-acceptance'' ''pending'')] conn0)\<rparr>)
          d_auto s0))))
   \<and> WaitForState_ev
        (availableStateConf
           (accepts (pc0 ''provisioning'' ''ok'')
              (describes [Some (pc0 ''pending-acceptance'' ''pending'')] conn0)) ''pcx-1'' 60)
        (None, Some (OtherError ''timeout''))
     \<in> set (new_events s0 (snd (snd (resourceVPCPeeringConnectionUpdate x0
          (meta0\<lparr>EC2Conn := accepts (pc0 ''provisioning'' ''ok'')
             (describes [Some (pc0 ''pending-acceptance'' ''pending'')] conn0)\<rparr>)
          d_auto s0))))
   \<and> fst (resourceVPCPeeringConnectionUpdate x0
          (meta0\<lparr>EC2Conn := accepts (pc0 ''provisioning'' ''ok'')
             (describes [Some (pc0 ''pending-acceptance'' ''pending'')] conn0)\<rparr>)
          d_auto s0)
     = Returns (Some (Errorf_s
         ''Error waiting for VPC Peering Connection to become available: %s'' []
         (Errorf_s ''Error waiting for VPC Peering Connection (%s) to become available: %s''
            [''pcx-1''] (OtherError ''timeout''))))"
proof -
  let ?pc = "pc0 ''pending-acceptance'' ''pending''"
  let ?pa = "pc0 ''provisioning'' ''ok''"
  let ?c = "accepts ?pa (describes [Some ?pc] conn0)"
  let ?m = "meta0\<lparr>EC2Conn := ?c\<rparr>"
  let ?s2 = "\<lparr>remote = Suc 0,
       trace = [DescribeVpcPeeringConnections_ev \<lparr>VpcPeeringConnectionIds = [''pcx-1'']\<rparr>
                  (Some \<lparr>VpcPeeringConnections = [Some ?pc]\<rparr>, None)]\<rparr>"
  let ?s3 = "\<lparr>remote = Suc (Suc 0),
       trace = [DescribeVpcPeeringConnections_ev \<lparr>VpcPeeringConnectionIds = [''pcx-1'']\<rparr>
                  (Some \<lparr>VpcPeeringConnections = [Some ?pc]\<rparr>, None),
                AcceptVpcPeeringConnection_ev \<lparr>accept_VpcPeeringConnectionId = Some ''pcx-1''\<rparr>
                  (Some \<lparr>accepted_VpcPeeringConnection = Some ?pa\<rparr>, None)]\<rparr>"
  let ?u = "resourceVPCPeeringConnectionUpdate x0 ?m d_auto s0"
  have conn: "EC2Conn ?m = ?c" by simp
  have id: "d_Id d_auto = ''pcx-1''"
    by (simp add: d_Id_def d_auto_def d0_def)
  have tm: "d_Timeout d_auto ''update'' = 60"
    by (simp add: d_Timeout_def d_auto_def d0_def)
  have tags: "update_tags x0 (EC2Conn ?m) d_auto s0 = (None, s0)"
    by (simp add: update_tags_def d_HasChange_def d_auto_def d0_def)
  have refresh: "vpcPeeringConnectionRefreshState (EC2Conn ?m) (d_Id d_auto) s0
                   = ((Some ?pc, ''pending-acceptance'', None), ?s2)"
    by (simp add: vpcPeeringConnectionRefreshState_def invoke_def describes_def accepts_def id
        s0_def pc0_def StringValue_def VpcPeeringConnectionStateReasonCodeFailed_def Let_def)
  have auto: "snd (d_GetOk d_auto ''auto_accept'')"
    by (simp add: d_GetOk_def d_auto_def d0_def Schema_def)
  have accept: "resourceVPCPeeringConnectionAccept (EC2Conn ?m) (d_Id d_auto) ?s2
                  = (Returns (''provisioning'', None), ?s3)"
    by (simp add: resourceVPCPeeringConnectionAccept_def invoke_def accepts_def id pc0_def
        StringValue_def)
  have conf: "availableStateConf ?c ''pcx-1'' 60
                = availableStateConf (EC2Conn ?m) (d_Id d_auto) (d_Timeout d_auto ''update'')"
    by (simp add: id tm)
  have wait: "WaitForState x0 (availableStateConf ?c ''pcx-1'' 60) (remote ?s3)
                = ((None, Some (OtherError ''timeout'')), Suc (Suc (Suc 0)))"
    by (simp add: x0_def)
  have run: "?u = (fst ?u, fst (snd ?u), snd (snd ?u))"
    by simp
  show ?thesis
    using update_auto_accept [OF tags refresh accept conf wait run] auto
    by (simp add: id)
qed

text \<open>
  The claim C1 as stated ("when Accept is called, the handler then waits") fails on a
  run whose accept call returns an error: accept is called, nothing waits.
\<close>

theorem update_accept_error_no_wait:
  "resourceVPCPeeringConnectionUpdate x0
     (meta0\<lparr>EC2Conn := accept_fails (AWSError ''OperationNotPermitted'' ''not the accepter'')
        (describes [Some (pc0 ''pending-acceptance'' ''pending'')] conn0)\<rparr>)
     d_auto s0
   = (Returns (Some (Errorf_s ''Unable to accept VPC Peering Connection: %s'' []
        (AWSError ''OperationNotPermitted'' ''not the accepter''))),
      d_auto,
      \<lparr>remote = Suc (Suc 0),
       trace =
         [DescribeVpcPeeringConnections_ev \<lparr>VpcPeeringConnectionIds = [''pcx-1'']\<rparr>
            (Some \<lparr>VpcPeeringConnections = [Some (pc0 ''pending-acceptance'' ''pending'')]\<rparr>,
             None),
          AcceptVpcPeeringConnection_ev \<lparr>accept_VpcPeeringConnectionId = Some ''pcx-1''\<rparr>
            (None, Some (AWSError ''OperationNotPermitted'' ''not the accepter''))]\<rparr>)
   \<and> calls s0 (snd (snd (resourceVPCPeeringConnectionUpdate x0
        (meta0\<lparr>EC2Conn := accept_fails (AWSError ''OperationNotPermitted'' ''not the accepter'')
           (describes [Some (pc0 ''pending-acceptance'' ''pending'')] conn0)\<rparr>)
        d_auto s0)))
     = [ApiDescribeVpcPeeringConnections, ApiAcceptVpcPeeringConnection]"
proof -
  let ?pc = "pc0 ''pending-acceptance'' ''pending''"
  let ?e = "AWSError ''OperationNotPermitted'' ''not the accepter''"
  let ?m = "meta0\<lparr>EC2Conn := accept_fails ?e (describes [Some ?pc] conn0)\<rparr>"
  let ?s2 = "\<lparr>remote = Suc 0,
       trace = [DescribeVpcPeeringConnections_ev \<lparr>VpcPeeringConnectionIds = [''pcx-1'']\<rparr>
                  (Some \<lparr>VpcPeeringConnections = [Some ?pc]\<rparr>, None)]\<rparr>"
  let ?s3 = "\<lparr>remote = Suc (Suc 0),
       trace = [DescribeVpcPeeringConnections_ev \<lparr>VpcPeeringConnectionIds = [''pcx-1'']\<rparr>
                  (Some \<lparr>VpcPeeringConnections = [Some ?pc]\<rparr>, None),
                AcceptVpcPeeringConnection_ev \<lparr>accept_VpcPeeringConnectionId = Some ''pcx-1''\<rparr>
                  (None, Some ?e)]\<rparr>"
  have id: "d_Id d_auto = ''pcx-1''"
    by (simp add: d_Id_def d_auto_def d0_def)
  have tags: "update_tags x0 (EC2Conn ?m) d_auto s0 = (None, s0)"
    by (simp add: update_tags_def d_HasChange_def d_auto_def d0_def)
  have refresh: "vpcPeeringConnectionRefreshState (EC2Conn ?m) ''pcx-1'' s0
                   = ((Some ?pc, ''pending-acceptance'', None), ?s2)"
    by (simp add: vpcPeeringConnectionRefreshState_def invoke_def describes_def accept_fails_def
        s0_def pc0_def StringValue_def VpcPeeringConnectionStateReasonCodeFailed_def Let_def)
  have auto: "snd (d_GetOk d_auto ''auto_accept'')"
    by (simp add: d_GetOk_def d_auto_def d0_def Schema_def)
  have accept: "resourceVPCPeeringConnectionAccept (EC2Conn ?m) ''pcx-1'' ?s2
                  = (Returns ('''', Some ?e), ?s3)"
    by (simp add: resourceVPCPeeringConnectionAccept_def invoke_def accept_fails_def)
  have ua: "update_accept x0 (EC2Conn ?m) d_auto ''pending-acceptance'' ?s2
              = (Exit (Returns (Some (Errorf_s ''Unable to accept VPC Peering Connection: %s''
                                        [] ?e))), ?s3)"
    using auto accept
    by (simp add: update_accept_def id VpcPeeringConnectionStateReasonCodePendingAcceptance_def)
  have run: "resourceVPCPeeringConnectionUpdate x0 ?m d_auto s0
               = (Returns (Some (Errorf_s ''Unable to accept VPC Peering Connection: %s'' [] ?e)),
                  d_auto, ?s3)"
    using tags refresh ua by (simp add: resourceVPCPeeringConnectionUpdate_def id)
  show ?thesis
    unfolding run by (simp add: calls_def new_events_def s0_def)
qed

subsection \<open>The update handler: the peering options\<close>

lemma update_refresh_error:
  "update_tags x (EC2Conn meta) d s = (None, s1) \<Longrightarrow>
   vpcPeeringConnectionRefreshState (EC2Conn meta) (d_Id d) s1 = ((pcRaw, st, Some e), s2) \<Longrightarrow>
     resourceVPCPeeringConnectionUpdate x meta d s
       = (Returns (Some (Errorf_s ''Error reading VPC Peering Connection: %s'' [] e)), d, s2)"
  by (auto simp add: resourceVPCPeeringConnectionUpdate_def Let_def split: option.splits)

lemma update_refresh_nil:
  "update_tags x (EC2Conn meta) d s = (None, s1) \<Longrightarrow>
   vpcPeeringConnectionRefreshState (EC2Conn meta) (d_Id d) s1 = ((None, st, None), s2) \<Longrightarrow>
     resourceVPCPeeringConnectionUpdate x meta d s = (Returns None, d_SetId d '''', s2)"
  by (simp add: resourceVPCPeeringConnectionUpdate_def)

text \<open>Every run of the update handler ends in one of five ways.\<close>

lemma update_run_shape:
  assumes tags: "update_tags x (EC2Conn meta) d s = (e1, s1)"
    and refresh: "vpcPeeringConnectionRefreshState (EC2Conn meta) (d_Id d) s1
                    = ((pcRaw, status0, err), s2)"
    and accept: "update_accept x (EC2Conn meta) d status0 s2 = (f3, s3)"
    and run: "resourceVPCPeeringConnectionUpdate x meta d s = (r, d', s')"
  shows "(\<exists>e. e1 = Some e \<and> r = Returns (Some e) \<and> d' = d \<and> s' = s1)
       \<or> (\<exists>e. e1 = None \<and> err = Some e
              \<and> r = Returns (Some (Errorf_s ''Error reading VPC Peering Connection: %s'' [] e))
              \<and> d' = d \<and> s' = s2)
       \<or> (e1 = None \<and> err = None \<and> pcRaw = None
              \<and> r = Returns None \<and> d' = d_SetId d '''' \<and> s' = s2)
       \<or> (\<exists>pc. e1 = None \<and> err = None \<and> pcRaw = Some pc \<and> f3 = Exit r \<and> d' = d \<and> s' = s3)
       \<or> (\<exists>pc statusCode f4 s4. e1 = None \<and> err = None \<and> pcRaw = Some pc
              \<and> f3 = Continue statusCode
              \<and> update_options x (EC2Conn meta) d pc statusCode s3 = (f4, s4)
              \<and> (r, d', s') = (case f4 of Exit r \<Rightarrow> (r, d, s4)
                    | Continue u \<Rightarrow> resourceVPCPeeringConnectionRead x meta d s4))"
proof (cases e1)
  case (Some e)
  have "resourceVPCPeeringConnectionUpdate x meta d s = (Returns (Some e), d, s1)"
    using tags unfolding Some by (rule update_tags_failed)
  then have "r = Returns (Some e) \<and> d' = d \<and> s' = s1" using run by simp
  then show ?thesis using Some by simp
next
  case None
  note tags' = tags [unfolded None]
  show ?thesis
  proof (cases err)
    case (Some e)
    have "resourceVPCPeeringConnectionUpdate x meta d s
       = (Returns (Some (Errorf_s ''Error reading VPC Peering Connection: %s'' [] e)), d, s2)"
      using tags' refresh [unfolded Some] by (rule update_refresh_error)
    then have "r = Returns (Some (Errorf_s ''Error reading VPC Peering Connection: %s'' [] e))
               \<and> d' = d \<and> s' = s2" using run by simp
    then show ?thesis using \<open>e1 = None\<close> Some by simp
  next
    case enone: None
    show ?thesis
    proof (cases pcRaw)
      case None
      have "resourceVPCPeeringConnectionUpdate x meta d s = (Returns None, d_SetId d '''', s2)"
        using tags' refresh [unfolded enone None] by (rule update_refresh_nil)
      then have "r = Returns None \<and> d' = d_SetId d '''' \<and> s' = s2" using run by simp
      then show ?thesis using \<open>e1 = None\<close> enone None by simp
    next
      case (Some pc)
      note refresh' = refresh [unfolded enone Some]
      show ?thesis
      proof (cases f3)
        case (Exit r3)
        have "resourceVPCPeeringConnectionUpdate x meta d s = (r3, d, s3)"
          using tags' refresh' accept [unfolded Exit] by (rule update_unfold_accept)
        then have "r = r3 \<and> d' = d \<and> s' = s3" using run by simp
        then show ?thesis using \<open>e1 = None\<close> enone Some Exit by simp
      next
        case (Continue statusCode)
        obtain f4 s4 where opt: "update_options x (EC2Conn meta) d pc statusCode s3 = (f4, s4)"
          by (cases "update_options x (EC2Conn meta) d pc statusCode s3")
        have "(r, d', s') = (case f4 of Exit r \<Rightarrow> (r, d, s4)
                    | Continue u \<Rightarrow> resourceVPCPeeringConnectionRead x meta d s4)"
          by (rule trans [OF run [symmetric]
                update_unfold [OF tags' refresh' accept [unfolded Continue] opt]])
        then show ?thesis using \<open>e1 = None\<close> enone Some Continue opt by simp
      qed
    qed
  qed
qed

lemma update_modify_calls:
  assumes changed: "d_HasChanges d [''accepter'', ''requester'']"
    and tags: "update_tags x (EC2Conn meta) d s = (e1, s1)"
    and refresh: "vpcPeeringConnectionRefreshState (EC2Conn meta) (d_Id d) s1
                    = ((pcRaw, status0, err), s2)"
    and accept: "update_accept x (EC2Conn meta) d status0 s2 = (f3, s3)"
    and run: "resourceVPCPeeringConnectionUpdate x meta d s = (r, d', s')"
  shows "ApiModifyVpcPeeringConnectionOptions \<in> set (calls s s') \<longleftrightarrow>
           e1 = None \<and> err = None \<and>
           (\<exists>pc statusCode. pcRaw = Some pc \<and> f3 = Continue statusCode
              \<and> (statusCode = ''active'' \<or> statusCode = ''provisioning'')
              \<and> RequesterVpcInfo pc \<noteq> None \<and> AccepterVpcInfo pc \<noteq> None)"
proof -
  let ?M = ApiModifyVpcPeeringConnectionOptions
  from update_tags_trace[OF tags] obtain ev1 where
    t1: "trace s1 = trace s @ ev1" and
    k1: "map api_of ev1 = (if d_HasChange d ''tags_all'' \<and> \<not> d_IsNewResource d
                            then [ApiUpdateTags] else [])" by (elim exE conjE)
  define a1 where "a1 = map api_of ev1"
  have n1: "?M \<notin> set a1"
    using k1 unfolding a1_def [symmetric] by (simp split: if_splits)
  from refresh_trace[OF refresh] obtain resp where
    t2: "trace s2 = trace s1 @ [DescribeVpcPeeringConnections_ev
                                  \<lparr>VpcPeeringConnectionIds = [d_Id d]\<rparr> resp]"
    by (elim exE)
  from update_accept_trace[OF accept] obtain ev3 where
    t3: "trace s3 = trace s2 @ ev3" and
    k3: "map api_of ev3 = [] \<or> map api_of ev3 = [ApiAcceptVpcPeeringConnection]
         \<or> map api_of ev3 = [ApiAcceptVpcPeeringConnection, ApiWaitForState]"
    by (auto split: if_splits)
  define a3 where "a3 = map api_of ev3"
  have n3: "?M \<notin> set a3"
    using k3 unfolding a3_def [symmetric] by (elim disjE) simp_all
  have c1: "calls s s1 = a1"
    using t1 by (simp add: calls_def new_events_def a1_def)
  have c2: "calls s s2 = a1 @ [ApiDescribeVpcPeeringConnections]"
    using t1 t2 by (simp add: calls_def new_events_def a1_def)
  have c3: "calls s s3 = a1 @ [ApiDescribeVpcPeeringConnections] @ a3"
    using t1 t2 t3 by (simp add: calls_def new_events_def a1_def a3_def)
  from update_run_shape[OF tags refresh accept run] show ?thesis
  proof (elim disjE exE conjE, goal_cases)
    case (1 e)
    then show ?case using c1 n1 by simp
  next
    case (2 e)
    then show ?case using c2 n1 by simp
  next
    case 3
    then show ?case using c2 n1 by simp
  next
    case (4 pc)
    then show ?case using c3 n1 n3 by simp
  next
    case options: (5 pc statusCode f4 s4)
    define active where
      "active \<longleftrightarrow> statusCode = ''active'' \<or> statusCode = ''provisioning''"
    define whole where
      "whole \<longleftrightarrow> RequesterVpcInfo pc \<noteq> None \<and> AccepterVpcInfo pc \<noteq> None"
    from update_options_trace[OF options(5)] changed obtain ev4 where
      t4: "trace s4 = trace s3 @ ev4" and
      k4: "if active \<and> whole
           then map api_of ev4 = [ApiModifyVpcPeeringConnectionOptions] else ev4 = []"
      unfolding active_def whole_def by (auto split: if_splits)
    define a4 where "a4 = map api_of ev4"
    have n4: "?M \<in> set a4 \<longleftrightarrow> active \<and> whole"
    proof (cases "active \<and> whole")
      case True
      then have "a4 = [ApiModifyVpcPeeringConnectionOptions]" using k4 by (simp add: a4_def)
      then show ?thesis using True by simp
    next
      case False
      then have "a4 = []" using k4 by (simp add: a4_def)
      then show ?thesis using False by simp
    qed
    have "\<exists>ev5. trace s' = trace s4 @ ev5
               \<and> (ev5 = [] \<or> map api_of ev5 = [ApiFindVPCPeeringConnectionByID])"
    proof (cases f4)
      case (Exit r0)
      have "(r, d', s') = (r0, d, s4)"
        using options(6) unfolding Exit by (simp only: flow.case)
      then have "s' = s4" by (simp only: prod.inject)
      then show ?thesis by simp
    next
      case (Continue u)
      have "(r, d', s') = resourceVPCPeeringConnectionRead x meta d s4"
        using options(6) unfolding Continue by (simp only: flow.case)
      then have "resourceVPCPeeringConnectionRead x meta d s4 = (r, d', s')"
        by (rule sym)
      from read_trace[OF this] obtain res where
        "trace s' = trace s4 @ [FindVPCPeeringConnectionByID_ev (d_Id d) res]" by (elim exE)
      then show ?thesis
        by (intro exI [of _ "[FindVPCPeeringConnectionByID_ev (d_Id d) res]"]) simp
    qed
    then obtain ev5 where
      t5: "trace s' = trace s4 @ ev5" and
      k5: "ev5 = [] \<or> map api_of ev5 = [ApiFindVPCPeeringConnectionByID]"
      by (elim exE conjE)
    define a5 where "a5 = map api_of ev5"
    have n5: "?M \<notin> set a5"
      using k5 unfolding a5_def [symmetric] by (elim disjE) (simp_all add: a5_def)
    have c: "calls s s' = a1 @ [ApiDescribeVpcPeeringConnections] @ a3 @ a4 @ a5"
      using t1 t2 t3 t4 t5 by (simp add: calls_def new_events_def a1_def a3_def a4_def a5_def)
    have "?M \<in> set (calls s s') \<longleftrightarrow> active \<and> whole"
      unfolding c using n1 n3 n4 n5 by simp
    then show ?case
      using options(1-4) unfolding active_def whole_def by simp
  qed
qed

text \<open>
  C2, as the code has it: in every run of the update handler in which the
  \<^verbatim>\<open>accepter\<close> or \<^verbatim>\<open>requester\<close> peering options have changed,
  \<^verbatim>\<open>ModifyVpcPeeringConnectionOptions\<close> is called only when the status code in force
  (the refreshed one, or the one the accept call returned when the handler accepted) is
  \<^verbatim>\<open>active\<close> or \<^verbatim>\<open>provisioning\<close>; it is called exactly when, besides, the run
  reaches the options step and no nil VPC info is dereferenced there. A run that reaches
  the options step with any other status code returns the error "Unable to modify peering
  options. The VPC Peering Connection %q is not active. Please set `auto_accept` attribute
  to `true`, or activate VPC Peering Connection manually." with nothing called after the
  accept step. A run that ends before the options step returns what ended it and does
  not call modify: the tag error, "Error reading VPC Peering Connection" for a refresh
  error (such as the one of the status \<^verbatim>\<open>failed\<close>), nil with the ID cleared for a
  connection that is not found, or the result of the accept step.
\<close>

theorem update_modify_only_when_active:
  assumes changed: "d_HasChanges d [''accepter'', ''requester'']"
    and tags: "update_tags x (EC2Conn meta) d s = (e1, s1)"
    and refresh: "vpcPeeringConnectionRefreshState (EC2Conn meta) (d_Id d) s1
                    = ((pcRaw, status0, err), s2)"
    and accept: "update_accept x (EC2Conn meta) d status0 s2 = (f3, s3)"
    and run: "resourceVPCPeeringConnectionUpdate x meta d s = (r, d', s')"
  shows "(ApiModifyVpcPeeringConnectionOptions \<in> set (calls s s') \<longleftrightarrow>
            e1 = None \<and> err = None \<and>
            (\<exists>pc statusCode. pcRaw = Some pc \<and> f3 = Continue statusCode
               \<and> (statusCode = ''active'' \<or> statusCode = ''provisioning'')
               \<and> RequesterVpcInfo pc \<noteq> None \<and> AccepterVpcInfo pc \<noteq> None))
         \<and> (\<forall>pc statusCode.
               e1 = None \<and> err = None \<and> pcRaw = Some pc \<and> f3 = Continue statusCode
               \<and> statusCode \<noteq> ''active'' \<and> statusCode \<noteq> ''provisioning'' \<longrightarrow>
               r = Returns (Some (Errorf
                     (''Unable to modify peering options. The VPC Peering Connection '' @
                      ''%q is not active. Please set `auto_accept` attribute to `true`, '' @
                      ''or activate VPC Peering Connection manually.'') [d_Id d]))
               \<and> d' = d \<and> s' = s3)
         \<and> (\<forall>statusCode. f3 = Continue statusCode \<longrightarrow>
               (if snd (d_GetOk d ''auto_accept'') \<and> status0 = ''pending-acceptance''
                then \<exists>s2'. resourceVPCPeeringConnectionAccept (EC2Conn meta) (d_Id d) s2
                             = (Returns (statusCode, None), s2')
                else statusCode = status0))
         \<and> (\<forall>e. e1 = Some e \<longrightarrow> r = Returns (Some e) \<and> d' = d \<and> s' = s1)
         \<and> (\<forall>e. e1 = None \<and> err = Some e \<longrightarrow>
               r = Returns (Some (Errorf_s ''Error reading VPC Peering Connection: %s'' [] e))
               \<and> d' = d \<and> s' = s2)
         \<and> (e1 = None \<and> err = None \<and> pcRaw = None \<longrightarrow>
               r = Returns None \<and> d' = d_SetId d '''' \<and> s' = s2)
         \<and> (\<forall>r3. e1 = None \<and> err = None \<and> pcRaw \<noteq> None \<and> f3 = Exit r3 \<longrightarrow>
               r = r3 \<and> d' = d \<and> s' = s3)"
proof -
  let ?unable = "Errorf
                  (''Unable to modify peering options. The VPC Peering Connection '' @
                   ''%q is not active. Please set `auto_accept` attribute to `true`, '' @
                   ''or activate VPC Peering Connection manually.'') [d_Id d]"
  note A = update_modify_calls [OF changed tags refresh accept run]
  have B: "\<forall>pc statusCode.
               e1 = None \<and> err = None \<and> pcRaw = Some pc \<and> f3 = Continue statusCode
               \<and> statusCode \<noteq> ''active'' \<and> statusCode \<noteq> ''provisioning'' \<longrightarrow>
               r = Returns (Some ?unable) \<and> d' = d \<and> s' = s3"
  proof (intro allI impI, elim conjE)
    fix pc statusCode
    assume h: "e1 = None" "err = None" "pcRaw = Some pc" "f3 = Continue statusCode"
      "statusCode \<noteq> ''active''" "statusCode \<noteq> ''provisioning''"
    have opt: "update_options x (EC2Conn meta) d pc statusCode s3
                 = (Exit (Returns (Some ?unable)), s3)"
      using h(5,6) changed
      by (simp add: update_options_def VpcPeeringConnectionStateReasonCodeActive_def
          VpcPeeringConnectionStateReasonCodeProvisioning_def)
    have "resourceVPCPeeringConnectionUpdate x meta d s = (Returns (Some ?unable), d, s3)"
      using update_unfold [OF tags [unfolded h(1)] refresh [unfolded h(2,3)]
          accept [unfolded h(4)] opt]
      by simp
    then show "r = Returns (Some ?unable) \<and> d' = d \<and> s' = s3"
      using run by simp
  qed
  have C: "\<forall>statusCode. f3 = Continue statusCode \<longrightarrow>
               (if snd (d_GetOk d ''auto_accept'') \<and> status0 = ''pending-acceptance''
                then \<exists>s2'. resourceVPCPeeringConnectionAccept (EC2Conn meta) (d_Id d) s2
                             = (Returns (statusCode, None), s2')
                else statusCode = status0)"
  proof (intro allI impI)
    fix statusCode
    assume f3: "f3 = Continue statusCode"
    note st = update_accept_status [OF accept [unfolded f3]]
    show "if snd (d_GetOk d ''auto_accept'') \<and> status0 = ''pending-acceptance''
          then \<exists>s2'. resourceVPCPeeringConnectionAccept (EC2Conn meta) (d_Id d) s2
                       = (Returns (statusCode, None), s2')
          else statusCode = status0"
    proof (cases "snd (d_GetOk d ''auto_accept'') \<and> status0 = ''pending-acceptance''")
      case True
      then show ?thesis using st by simp
    next
      case False
      then show ?thesis using st by simp
    qed
  qed
  have D1: "\<forall>e. e1 = Some e \<longrightarrow> r = Returns (Some e) \<and> d' = d \<and> s' = s1"
  proof (intro allI impI)
    fix e assume h: "e1 = Some e"
    have "resourceVPCPeeringConnectionUpdate x meta d s = (Returns (Some e), d, s1)"
      using tags unfolding h by (rule update_tags_failed)
    then show "r = Returns (Some e) \<and> d' = d \<and> s' = s1" using run by simp
  qed
  have D2: "\<forall>e. e1 = None \<and> err = Some e \<longrightarrow>
               r = Returns (Some (Errorf_s ''Error reading VPC Peering Connection: %s'' [] e))
               \<and> d' = d \<and> s' = s2"
  proof (intro allI impI, elim conjE)
    fix e assume h: "e1 = None" "err = Some e"
    have "resourceVPCPeeringConnectionUpdate x meta d s
       = (Returns (Some (Errorf_s ''Error reading VPC Peering Connection: %s'' [] e)), d, s2)"
      using tags [unfolded h(1)] refresh [unfolded h(2)] by (rule update_refresh_error)
    then show "r = Returns (Some (Errorf_s ''Error reading VPC Peering Connection: %s'' [] e))
               \<and> d' = d \<and> s' = s2" using run by simp
  qed
  have D3: "e1 = None \<and> err = None \<and> pcRaw = None \<longrightarrow>
               r = Returns None \<and> d' = d_SetId d '''' \<and> s' = s2"
  proof (intro impI, elim conjE)
    assume h: "e1 = None" "err = None" "pcRaw = None"
    have "resourceVPCPeeringConnectionUpdate x meta d s = (Returns None, d_SetId d '''', s2)"
      using tags [unfolded h(1)] refresh [unfolded h(2,3)] by (rule update_refresh_nil)
    then show "r = Returns None \<and> d' = d_SetId d '''' \<and> s' = s2" using run by simp
  qed
  have D4: "\<forall>r3. e1 = None \<and> err = None \<and> pcRaw \<noteq> None \<and> f3 = Exit r3 \<longrightarrow>
               r = r3 \<and> d' = d \<and> s' = s3"
  proof (intro allI impI, elim conjE)
    fix r3 assume h: "e1 = None" "err = None" "pcRaw \<noteq> None" "f3 = Exit r3"
    from h(3) obtain pc where pc: "pcRaw = Some pc" by (cases pcRaw) simp_all
    have "resourceVPCPeeringConnectionUpdate x meta d s = (r3, d, s3)"
      using tags [unfolded h(1)] refresh [unfolded h(2) pc] accept [unfolded h(4)]
      by (rule update_unfold_accept)
    then show "r = r3 \<and> d' = d \<and> s' = s3" using run by simp
  qed
  show ?thesis
    by (rule conjI [OF A conjI [OF B conjI [OF C conjI [OF D1 conjI [OF D2 conjI [OF D3 D4]]]]]])
qed

theorem update_modify_only_when_active_witness:
  "resourceVPCPeeringConnectionUpdate x0
     (meta0\<lparr>EC2Conn := describes [Some (pc0 ''pending-acceptance'' ''pending'')] conn0\<rparr>)
     d_opts s0
   = (Returns (Some (Errorf
        (''Unable to modify peering options. The VPC Peering Connection '' @
         ''%q is not active. Please set `auto_accept` attribute to `true`, '' @
         ''or activate VPC Peering Connection manually.'') [''pcx-1''])),
      d_opts,
      \<lparr>remote = Suc 0,
       trace = [DescribeVpcPeeringConnections_ev \<lparr>VpcPeeringConnectionIds = [''pcx-1'']\<rparr>
                  (Some \<lparr>VpcPeeringConnections = [Some (pc0 ''pending-acceptance'' ''pending'')]\<rparr>,
                   None)]\<rparr>)
   \<and> ApiModifyVpcPeeringConnectionOptions
       \<in> set (calls s0 (snd (snd (resourceVPCPeeringConnectionUpdate x0
             (meta0\<lparr>EC2Conn := modifies (describes [Some (pc0 ''active'' ''ok'')] conn0)\<rparr>)
             d_opts s0))))"
proof -
  let ?pc = "pc0 ''pending-acceptance'' ''pending''"
  let ?m = "meta0\<lparr>EC2Conn := describes [Some ?pc] conn0\<rparr>"
  let ?s2 = "\<lparr>remote = Suc 0,
       trace = [DescribeVpcPeeringConnections_ev \<lparr>VpcPeeringConnectionIds = [''pcx-1'']\<rparr>
                  (Some \<lparr>VpcPeeringConnections = [Some ?pc]\<rparr>, None)]\<rparr>"
  let ?pa = "pc0 ''active'' ''ok''"
  let ?ma = "meta0\<lparr>EC2Conn := modifies (describes [Some ?pa] conn0)\<rparr>"
  let ?s2a = "\<lparr>remote = Suc 0,
       trace = [DescribeVpcPeeringConnections_ev \<lparr>VpcPeeringConnectionIds = [''pcx-1'']\<rparr>
                  (Some \<lparr>VpcPeeringConnections = [Some ?pa]\<rparr>, None)]\<rparr>"
  have changed: "d_HasChanges d_opts [''accepter'', ''requester'']"
    by (simp add: d_HasChanges_def d_HasChange_def d_opts_def)
  have notags: "\<not> d_HasChange d_opts ''tags_all''"
    by (simp add: d_HasChange_def d_opts_def)
  have noauto: "\<not> snd (d_GetOk d_opts ''auto_accept'')"
    by (simp add: d_GetOk_def d_opts_def)
  have tags: "update_tags x0 (EC2Conn m) d_opts s0 = (None, s0)" for m :: "nat AWSClient"
    using notags by (simp add: update_tags_def)
  have refresh: "vpcPeeringConnectionRefreshState (EC2Conn ?m) (d_Id d_opts) s0
                   = ((Some ?pc, ''pending-acceptance'', None), ?s2)"
    by (simp add: vpcPeeringConnectionRefreshState_def invoke_def describes_def s0_def
        d_Id_def d_opts_def d0_def pc0_def StringValue_def
        VpcPeeringConnectionStateReasonCodeFailed_def Let_def)
  have refresha: "vpcPeeringConnectionRefreshState (EC2Conn ?ma) (d_Id d_opts) s0
                   = ((Some ?pa, ''active'', None), ?s2a)"
    by (simp add: vpcPeeringConnectionRefreshState_def invoke_def describes_def modifies_def
        s0_def d_Id_def d_opts_def d0_def pc0_def StringValue_def
        VpcPeeringConnectionStateReasonCodeFailed_def Let_def)
  have accept: "update_accept x0 c d_opts st s = (Continue st, s)" for c st and s :: "nat session"
    using noauto by (simp add: update_accept_def)
  have run: "resourceVPCPeeringConnectionUpdate x0 ?m d_opts s0
               = (fst (resourceVPCPeeringConnectionUpdate x0 ?m d_opts s0),
                  fst (snd (resourceVPCPeeringConnectionUpdate x0 ?m d_opts s0)),
                  snd (snd (resourceVPCPeeringConnectionUpdate x0 ?m d_opts s0)))"
    by simp
  have runa: "resourceVPCPeeringConnectionUpdate x0 ?ma d_opts s0
               = (fst (resourceVPCPeeringConnectionUpdate x0 ?ma d_opts s0),
                  fst (snd (resourceVPCPeeringConnectionUpdate x0 ?ma d_opts s0)),
                  snd (snd (resourceVPCPeeringConnectionUpdate x0 ?ma d_opts s0)))"
    by simp
  have id: "d_Id d_opts = ''pcx-1''"
    by (simp add: d_Id_def d_opts_def d0_def)
  have whole: "RequesterVpcInfo ?pa \<noteq> None \<and> AccepterVpcInfo ?pa \<noteq> None"
    by (simp add: pc0_def)
  have 1: "resourceVPCPeeringConnectionUpdate x0 ?m d_opts s0
   = (Returns (Some (Errorf
        (''Unable to modify peering options. The VPC Peering Connection '' @
         ''%q is not active. Please set `auto_accept` attribute to `true`, '' @
         ''or activate VPC Peering Connection manually.'') [''pcx-1''])),
      d_opts, ?s2)"
    using update_modify_only_when_active [OF changed tags refresh accept run]
    unfolding id by (subst run) simp
  have 2: "ApiModifyVpcPeeringConnectionOptions
       \<in> set (calls s0 (snd (snd (resourceVPCPeeringConnectionUpdate x0 ?ma d_opts s0))))"
    using update_modify_only_when_active [OF changed tags refresha accept runa] whole by simp
  show ?thesis using 1 2 by (rule conjI)
qed


text \<open>
  The claim C2 as stated ("for every other status the handler returns the descriptive
  error") fails on a run whose refreshed status is \<^verbatim>\<open>failed\<close>: the peering options
  have changed, and the handler returns the refresh error instead.
\<close>

theorem update_failed_status_other_error:
  "resourceVPCPeeringConnectionUpdate x0
     (meta0\<lparr>EC2Conn := describes [Some (pc0 ''failed'' ''overlapping CIDR'')] conn0\<rparr>)
     d_opts s0
   = (Returns (Some (Errorf_s ''Error reading VPC Peering Connection: %s'' []
        (ErrorsNew ''overlapping CIDR''))),
      d_opts,
      \<lparr>remote = Suc 0,
       trace = [DescribeVpcPeeringConnections_ev \<lparr>VpcPeeringConnectionIds = [''pcx-1'']\<rparr>
                  (Some \<lparr>VpcPeeringConnections = [Some (pc0 ''failed'' ''overlapping CIDR'')]\<rparr>,
                   None)]\<rparr>)
   \<and> d_HasChanges d_opts [''accepter'', ''requester'']"
proof -
  let ?pc = "pc0 ''failed'' ''overlapping CIDR''"
  let ?m = "meta0\<lparr>EC2Conn := describes [Some ?pc] conn0\<rparr>"
  let ?s2 = "\<lparr>remote = Suc 0,
       trace = [DescribeVpcPeeringConnections_ev \<lparr>VpcPeeringConnectionIds = [''pcx-1'']\<rparr>
                  (Some \<lparr>VpcPeeringConnections = [Some ?pc]\<rparr>, None)]\<rparr>"
  have changed: "d_HasChanges d_opts [''accepter'', ''requester'']"
    by (simp add: d_HasChanges_def d_HasChange_def d_opts_def)
  have id: "d_Id d_opts = ''pcx-1''"
    by (simp add: d_Id_def d_opts_def d0_def)
  have tags: "update_tags x0 (EC2Conn ?m) d_opts s0 = (None, s0)"
    by (simp add: update_tags_def d_HasChange_def d_opts_def d0_def)
  have refresh: "vpcPeeringConnectionRefreshState (EC2Conn ?m) ''pcx-1'' s0
                   = ((None, ''failed'', Some (ErrorsNew ''overlapping CIDR'')), ?s2)"
    by (simp add: vpcPeeringConnectionRefreshState_def invoke_def describes_def
        s0_def pc0_def StringValue_def VpcPeeringConnectionStateReasonCodeFailed_def Let_def)
  have run: "resourceVPCPeeringConnectionUpdate x0 ?m d_opts s0
               = (Returns (Some (Errorf_s ''Error reading VPC Peering Connection: %s'' []
                    (ErrorsNew ''overlapping CIDR''))), d_opts, ?s2)"
    using tags refresh by (simp add: resourceVPCPeeringConnectionUpdate_def id)
  show ?thesis
    using run changed by (rule conjI)
qed

end
